theory Spec2Isabelle
  imports Main
begin

section \<open>Machine integers, time and outcomes\<close>

text \<open>
  Replica counts are Go \<open>int32\<close> values. They are modelled as \<open>int\<close>; where the
  source computes on \<open>int32\<close> the two's complement wrap-around is written out with
  \<open>wrap32\<close>. A conversion \<open>int32(f)\<close> of a \<open>float64\<close> that does not fit is
  implementation-dependent in Go: the model takes the platform's answer as the
  parameter \<open>ovf\<close>.
\<close>

definition MaxInt32 :: int where
  "MaxInt32 = 2147483647"

definition MinInt32 :: int where
  "MinInt32 = - 2147483648"

definition wrap32 :: "int \<Rightarrow> int" where
  "wrap32 x = (x + 2147483648) mod 4294967296 - 2147483648"

definition float64_to_int32 :: "(int \<Rightarrow> int) \<Rightarrow> int \<Rightarrow> int" where
  "float64_to_int32 ovf x = (if MinInt32 \<le> x \<and> x \<le> MaxInt32 then x else ovf x)"

text \<open>
  A \<open>time.Time\<close> is modelled as the number of nanoseconds since the Unix epoch on the
  wall clock of the process's location (a zone with a fixed offset); a
  \<open>time.Duration\<close> is a number of nanoseconds.
\<close>

definition Second :: int where
  "Second = 1000000000"

definition Minute :: int where
  "Minute = 60 * Second"

definition Hour :: int where
  "Hour = 60 * Minute"

text \<open>The zero \<open>time.Time\<close> (January 1, year 1, 00:00:00).\<close>

definition zeroTime :: int where
  "zeroTime = - 62135596800 * Second"

text \<open>
  What a call does: it returns, it panics (a nil pointer is dereferenced), or its
  loop never ends.
\<close>

datatype 'a outcome = Returns 'a | Panics | Diverges

section \<open>The condition list\<close>

record GeneralPodAutoscalerCondition =
  CondType :: string
  Status :: string
  LastTransitionTime :: int
  Reason :: string
  Message :: string

definition emptyCondition :: GeneralPodAutoscalerCondition where
  "emptyCondition =
     \<lparr>CondType = [], Status = [], LastTransitionTime = zeroTime, Reason = [], Message = []\<rparr>"

text \<open>The index of the first entry of the given type (the loop with \<open>break\<close>).\<close>

fun findCondition :: "GeneralPodAutoscalerCondition list \<Rightarrow> string \<Rightarrow> nat \<Rightarrow> nat option" where
  "findCondition [] conditionType i = None"
| "findCondition (c # cs) conditionType i =
     (if CondType c = conditionType then Some i else findCondition cs conditionType (Suc i))"

text \<open>
  \<open>setConditionInList\<close>; \<open>now\<close> is the reading of \<open>metav1.Now()\<close> and \<open>message\<close> the
  already formatted message.
\<close>

definition setConditionInList ::
  "int \<Rightarrow> GeneralPodAutoscalerCondition list \<Rightarrow> string \<Rightarrow> string \<Rightarrow> string \<Rightarrow> string
     \<Rightarrow> GeneralPodAutoscalerCondition list" where
  "setConditionInList now inputList conditionType status reason message =
     (let (resList, i) =
            (case findCondition inputList conditionType 0 of
               Some i \<Rightarrow> (inputList, i)
             | None \<Rightarrow> (inputList @ [emptyCondition\<lparr>CondType := conditionType\<rparr>], length inputList));
          existingCond = resList ! i;
          existingCond = (if Status existingCond \<noteq> status
                          then existingCond\<lparr>LastTransitionTime := now\<rparr> else existingCond);
          existingCond = existingCond\<lparr>Status := status, Reason := reason, Message := message\<rparr>
      in resList[i := existingCond])"

section \<open>The legacy normalizer\<close>

record timestampedRecommendation =
  recommendation :: int
  timestamp :: int

text \<open>
  \<open>scaleUpLimitFactor = 2.0\<close> and \<open>scaleUpLimitMinimum = 4.0\<close>: the product and the
  maximum are exact in \<open>float64\<close> for every \<open>int32\<close>.
\<close>

definition scaleUpLimitFactor :: int where
  "scaleUpLimitFactor = 2"

definition scaleUpLimitMinimum :: int where
  "scaleUpLimitMinimum = 4"

definition calculateScaleUpLimit :: "(int \<Rightarrow> int) \<Rightarrow> int \<Rightarrow> int" where
  "calculateScaleUpLimit ovf currentReplicas =
     float64_to_int32 ovf (max (scaleUpLimitFactor * currentReplicas) scaleUpLimitMinimum)"

definition convertDesiredReplicasWithRules ::
  "(int \<Rightarrow> int) \<Rightarrow> int \<Rightarrow> int \<Rightarrow> int \<Rightarrow> int \<Rightarrow> int \<times> string \<times> string" where
  "convertDesiredReplicasWithRules ovf currentReplicas desiredReplicas gpaMinReplicas gpaMaxReplicas =
     (let minimumAllowedReplicas = gpaMinReplicas;
          scaleUpLimit = calculateScaleUpLimit ovf currentReplicas;
          (maximumAllowedReplicas, possibleLimitingCondition, possibleLimitingReason) =
            (if gpaMaxReplicas > scaleUpLimit
             then (scaleUpLimit, ''ScaleUpLimit'',
                   ''the desired replica count is increasing faster than the maximum scale rate'')
             else (gpaMaxReplicas, ''TooManyReplicas'',
                   ''the desired replica count is more than the maximum replica count''))
      in if desiredReplicas < minimumAllowedReplicas
         then (minimumAllowedReplicas, ''TooFewReplicas'',
               ''the desired replica count is less than the minimum replica count'')
         else if desiredReplicas > maximumAllowedReplicas
         then (maximumAllowedReplicas, possibleLimitingCondition, possibleLimitingReason)
         else (desiredReplicas, ''DesiredWithinRange'',
               ''the desired count is within the acceptable range''))"

text \<open>
  The loop of \<open>stabilizeRecommendation\<close>: the state is
  \<open>(maxRecommendation, foundOldSample, oldSampleIndex)\<close>, \<open>i\<close> the index of the head.
\<close>

fun stabilizeScan ::
  "int \<Rightarrow> timestampedRecommendation list \<Rightarrow> nat \<Rightarrow> int \<times> bool \<times> nat \<Rightarrow> int \<times> bool \<times> nat" where
  "stabilizeScan cutoff [] i st = st"
| "stabilizeScan cutoff (r # rs) i (maxRecommendation, foundOldSample, oldSampleIndex) =
     stabilizeScan cutoff rs (Suc i)
       (if timestamp r < cutoff then (maxRecommendation, True, i)
        else if recommendation r > maxRecommendation then (recommendation r, foundOldSample, oldSampleIndex)
        else (maxRecommendation, foundOldSample, oldSampleIndex))"

text \<open>
  The window of a key that the map does not hold is the nil slice, which Go ranges
  over and appends to as the empty one.
\<close>

definition window :: "(string \<rightharpoonup> 'a list) \<Rightarrow> string \<Rightarrow> 'a list" where
  "window m key = (case m key of None \<Rightarrow> [] | Some xs \<Rightarrow> xs)"

text \<open>
  \<open>stabilizeRecommendation\<close> returns the stabilized recommendation and the updated
  \<open>recommendations\<close> map; \<open>now\<close> is the reading of \<open>time.Now()\<close>.
\<close>

definition stabilizeRecommendation ::
  "int \<Rightarrow> int \<Rightarrow> (string \<rightharpoonup> timestampedRecommendation list) \<Rightarrow> string \<Rightarrow> int
     \<Rightarrow> int \<times> (string \<rightharpoonup> timestampedRecommendation list)" where
  "stabilizeRecommendation downscaleStabilisationWindow now recommendations key prenormalizedDesiredReplicas =
     (let cutoff = now - downscaleStabilisationWindow;
          (maxRecommendation, foundOldSample, oldSampleIndex) =
             stabilizeScan cutoff (window recommendations key) 0 (prenormalizedDesiredReplicas, False, 0);
          sample = \<lparr>recommendation = prenormalizedDesiredReplicas, timestamp = now\<rparr>
      in (maxRecommendation,
          recommendations(key \<mapsto>
            (if foundOldSample then (window recommendations key)[oldSampleIndex := sample]
             else window recommendations key @ [sample]))))"

text \<open>
  \<open>normalizeDesiredReplicas\<close>: the conditions of the GPA are threaded through
  \<open>setCondition\<close>; the result is the desired count, the conditions and the
  \<open>recommendations\<close> map.
\<close>

definition normalizeDesiredReplicas ::
  "(int \<Rightarrow> int) \<Rightarrow> int \<Rightarrow> int \<Rightarrow> GeneralPodAutoscalerCondition list
     \<Rightarrow> (string \<rightharpoonup> timestampedRecommendation list) \<Rightarrow> string \<Rightarrow> int \<Rightarrow> int \<Rightarrow> int \<Rightarrow> int
     \<Rightarrow> int \<times> GeneralPodAutoscalerCondition list \<times> (string \<rightharpoonup> timestampedRecommendation list)" where
  "normalizeDesiredReplicas ovf downscaleStabilisationWindow now conditions recommendations key
       currentReplicas prenormalizedDesiredReplicas minReplicas gpaMaxReplicas =
     (let (stabilizedRecommendation, recommendations') =
            stabilizeRecommendation downscaleStabilisationWindow now recommendations key
              prenormalizedDesiredReplicas;
          conditions =
            (if stabilizedRecommendation \<noteq> prenormalizedDesiredReplicas
             then setConditionInList now conditions ''AbleToScale'' ''True'' ''ScaleDownStabilized''
                    ''recent recommendations were higher than current one, applying the highest recent recommendation''
             else setConditionInList now conditions ''AbleToScale'' ''True'' ''ReadyForNewScale''
                    ''recommended size matches current size'');
          (desiredReplicas, condition, reason) =
            convertDesiredReplicasWithRules ovf currentReplicas stabilizedRecommendation
              minReplicas gpaMaxReplicas;
          conditions =
            (if desiredReplicas = stabilizedRecommendation
             then setConditionInList now conditions ''ScalingLimited'' ''False'' condition reason
             else setConditionInList now conditions ''ScalingLimited'' ''True'' condition reason)
      in (desiredReplicas, conditions, recommendations'))"

section \<open>The behavior normalizer\<close>

record timestampedScaleEvent =
  replicaChange :: int
  eventTimestamp :: int
  outdated :: bool

text \<open>
  The policy type and the select policy are Go string types: the last constructor of
  each stands for every string the source does not compare with.
\<close>

datatype GPAScalingPolicyType = PodsScalingPolicy | PercentScalingPolicy | OtherScalingPolicy string

datatype ScalingPolicySelect =
  MaxPolicySelect | MinPolicySelect | DisabledPolicySelect | OtherPolicySelect string

record GPAScalingPolicy =
  PolicyType :: GPAScalingPolicyType
  Value :: int
  PeriodSeconds :: int

record GPAScalingRules =
  StabilizationWindowSeconds :: "int option"
  SelectPolicy :: "ScalingPolicySelect option"
  Policies :: "GPAScalingPolicy list"

record GeneralPodAutoscalerBehavior =
  ScaleUp :: "GPAScalingRules option"
  ScaleDown :: "GPAScalingRules option"

record NormalizationArg =
  Key :: string
  ScaleUpBehavior :: "GPAScalingRules option"
  ScaleDownBehavior :: "GPAScalingRules option"
  MinReplicas :: int
  MaxReplicas :: int
  CurrentReplicas :: int
  DesiredReplicas :: int

text \<open>
  The two percent proposals are \<open>float64\<close> computations,
  \<open>int32(math.Ceil(float64(p) * (1 + float64(v)/100)))\<close> for scale-up and
  \<open>int32(float64(p) * (1 - float64(v)/100))\<close> for scale-down; the model takes them
  as parameters.
\<close>

record percent_ops =
  percentUp :: "int \<Rightarrow> int \<Rightarrow> int"
  percentDown :: "int \<Rightarrow> int \<Rightarrow> int"

definition getReplicasChangePerPeriod :: "int \<Rightarrow> int \<Rightarrow> timestampedScaleEvent list \<Rightarrow> int" where
  "getReplicasChangePerPeriod now periodSeconds scaleEvents =
     (let period = Second * periodSeconds;
          cutoff = now - period
      in foldl (\<lambda>replicas rec.
                  if eventTimestamp rec > cutoff then wrap32 (replicas + replicaChange rec)
                  else replicas)
           0 scaleEvents)"

text \<open>
  The loops over the policies: the state is \<open>(result, proposed)\<close>, since \<open>proposed\<close>
  is declared outside the loop and keeps its value under a policy of another type.
\<close>

definition scaleUpStep ::
  "percent_ops \<Rightarrow> int \<Rightarrow> int \<Rightarrow> timestampedScaleEvent list \<Rightarrow> (int \<Rightarrow> int \<Rightarrow> int)
     \<Rightarrow> int \<times> int \<Rightarrow> GPAScalingPolicy \<Rightarrow> int \<times> int" where
  "scaleUpStep ops now currentReplicas scaleEvents selectPolicyFn st policy =
     (let replicasAddedInCurrentPeriod = getReplicasChangePerPeriod now (PeriodSeconds policy) scaleEvents;
          periodStartReplicas = wrap32 (currentReplicas - replicasAddedInCurrentPeriod);
          proposed =
            (case PolicyType policy of
               PodsScalingPolicy \<Rightarrow> wrap32 (periodStartReplicas + Value policy)
             | PercentScalingPolicy \<Rightarrow> percentUp ops periodStartReplicas (Value policy)
             | OtherScalingPolicy s \<Rightarrow> snd st)
      in (selectPolicyFn (fst st) proposed, proposed))"

definition calculateScaleUpLimitWithScalingRules ::
  "percent_ops \<Rightarrow> int \<Rightarrow> int \<Rightarrow> timestampedScaleEvent list \<Rightarrow> GPAScalingRules \<Rightarrow> int outcome" where
  "calculateScaleUpLimitWithScalingRules ops now currentReplicas scaleEvents scalingRules =
     (case SelectPolicy scalingRules of
        None \<Rightarrow> Panics
      | Some sp \<Rightarrow>
          if sp = DisabledPolicySelect then Returns currentReplicas
          else
            (let selectPolicyFn = (if sp = MinPolicySelect then min else max)
             in Returns (fst (foldl (scaleUpStep ops now currentReplicas scaleEvents selectPolicyFn)
                                (0, 0) (Policies scalingRules)))))"

definition scaleDownStep ::
  "percent_ops \<Rightarrow> int \<Rightarrow> int \<Rightarrow> timestampedScaleEvent list \<Rightarrow> (int \<Rightarrow> int \<Rightarrow> int)
     \<Rightarrow> int \<times> int \<Rightarrow> GPAScalingPolicy \<Rightarrow> int \<times> int" where
  "scaleDownStep ops now currentReplicas scaleEvents selectPolicyFn st policy =
     (let replicasDeletedInCurrentPeriod = getReplicasChangePerPeriod now (PeriodSeconds policy) scaleEvents;
          periodStartReplicas = wrap32 (currentReplicas + replicasDeletedInCurrentPeriod);
          proposed =
            (case PolicyType policy of
               PodsScalingPolicy \<Rightarrow> wrap32 (periodStartReplicas - Value policy)
             | PercentScalingPolicy \<Rightarrow> percentDown ops periodStartReplicas (Value policy)
             | OtherScalingPolicy s \<Rightarrow> snd st)
      in (selectPolicyFn (fst st) proposed, proposed))"

definition calculateScaleDownLimitWithBehaviors ::
  "percent_ops \<Rightarrow> int \<Rightarrow> int \<Rightarrow> timestampedScaleEvent list \<Rightarrow> GPAScalingRules \<Rightarrow> int outcome" where
  "calculateScaleDownLimitWithBehaviors ops now currentReplicas scaleEvents scalingRules =
     (case SelectPolicy scalingRules of
        None \<Rightarrow> Panics
      | Some sp \<Rightarrow>
          if sp = DisabledPolicySelect then Returns currentReplicas
          else
            (let selectPolicyFn = (if sp = MinPolicySelect then max else min)
             in Returns (fst (foldl (scaleDownStep ops now currentReplicas scaleEvents selectPolicyFn)
                                (MaxInt32, 0) (Policies scalingRules)))))"

definition convertDesiredReplicasWithBehaviorRate ::
  "percent_ops \<Rightarrow> int \<Rightarrow> (string \<rightharpoonup> timestampedScaleEvent list) \<Rightarrow> (string \<rightharpoonup> timestampedScaleEvent list)
     \<Rightarrow> NormalizationArg \<Rightarrow> (int \<times> string \<times> string) outcome" where
  "convertDesiredReplicasWithBehaviorRate ops now scaleUpEvents scaleDownEvents args =
     (if DesiredReplicas args > CurrentReplicas args \<and> ScaleUpBehavior args \<noteq> None then
        (case calculateScaleUpLimitWithScalingRules ops now (CurrentReplicas args)
                (window scaleUpEvents (Key args)) (the (ScaleUpBehavior args)) of
           Returns limit \<Rightarrow>
             (let scaleUpLimit = (if limit < CurrentReplicas args then CurrentReplicas args else limit);
                  (maximumAllowedReplicas, possibleLimitingReason, possibleLimitingMessage) =
                    (if MaxReplicas args > scaleUpLimit
                     then (scaleUpLimit, ''ScaleUpLimit'',
                           ''the desired replica count is increasing faster than the maximum scale rate'')
                     else (MaxReplicas args, ''TooManyReplicas'',
                           ''the desired replica count is more than the maximum replica count''))
              in if DesiredReplicas args > maximumAllowedReplicas
                 then Returns (maximumAllowedReplicas, possibleLimitingReason, possibleLimitingMessage)
                 else Returns (DesiredReplicas args, ''DesiredWithinRange'',
                               ''the desired count is within the acceptable range''))
         | Panics \<Rightarrow> Panics
         | Diverges \<Rightarrow> Diverges)
      else if DesiredReplicas args < CurrentReplicas args \<and> ScaleDownBehavior args \<noteq> None then
        (case calculateScaleDownLimitWithBehaviors ops now (CurrentReplicas args)
                (window scaleDownEvents (Key args)) (the (ScaleDownBehavior args)) of
           Returns limit \<Rightarrow>
             (let scaleDownLimit = (if limit > CurrentReplicas args then CurrentReplicas args else limit);
                  (minimumAllowedReplicas, possibleLimitingReason, possibleLimitingMessage) =
                    (if MinReplicas args < scaleDownLimit
                     then (scaleDownLimit, ''ScaleDownLimit'',
                           ''the desired replica count is decreasing faster than the maximum scale rate'')
                     else (MinReplicas args, ''TooFewReplicas'',
                           ''the desired replica count is less than the minimum replica count''))
              in if DesiredReplicas args < minimumAllowedReplicas
                 then Returns (minimumAllowedReplicas, possibleLimitingReason, possibleLimitingMessage)
                 else Returns (DesiredReplicas args, ''DesiredWithinRange'',
                               ''the desired count is within the acceptable range''))
         | Panics \<Rightarrow> Panics
         | Diverges \<Rightarrow> Diverges)
      else Returns (DesiredReplicas args, ''DesiredWithinRange'',
                    ''the desired count is within the acceptable range''))"

text \<open>
  The loop of \<open>stabilizeRecommendationWithBehaviors\<close>: the state is
  \<open>(recommendation, foundOldSample, oldSampleIndex)\<close>.
\<close>

fun behaviorScan ::
  "(int \<Rightarrow> int \<Rightarrow> int) \<Rightarrow> int \<Rightarrow> int \<Rightarrow> timestampedRecommendation list \<Rightarrow> nat
     \<Rightarrow> int \<times> bool \<times> nat \<Rightarrow> int \<times> bool \<times> nat" where
  "behaviorScan betterRecommendation cutoff obsoleteCutoff [] i st = st"
| "behaviorScan betterRecommendation cutoff obsoleteCutoff (r # rs) i
       (recommendation', foundOldSample, oldSampleIndex) =
     behaviorScan betterRecommendation cutoff obsoleteCutoff rs (Suc i)
       (if timestamp r > cutoff
        then betterRecommendation (recommendation r) recommendation' else recommendation',
        if timestamp r < obsoleteCutoff then True else foundOldSample,
        if timestamp r < obsoleteCutoff then i else oldSampleIndex)"

text \<open>
  \<open>stabilizeRecommendationWithBehaviors\<close> dereferences both rules and both
  stabilization windows: it panics when one of them is nil.
\<close>

definition stabilizeRecommendationWithBehaviors ::
  "int \<Rightarrow> (string \<rightharpoonup> timestampedRecommendation list) \<Rightarrow> NormalizationArg
     \<Rightarrow> ((int \<times> string \<times> string) \<times> (string \<rightharpoonup> timestampedRecommendation list)) outcome" where
  "stabilizeRecommendationWithBehaviors now recommendations args =
     (case (ScaleUpBehavior args, ScaleDownBehavior args) of
        (Some up, Some down) \<Rightarrow>
          (case (StabilizationWindowSeconds up, StabilizationWindowSeconds down) of
             (Some upWindow, Some downWindow) \<Rightarrow>
               (let (scaleDelaySeconds, betterRecommendation, reason, message) =
                      (if DesiredReplicas args \<ge> CurrentReplicas args
                       then (upWindow, min, ''ScaleUpStabilized'',
                             ''recent recommendations were lower than current one, applying the lowest recent recommendation'')
                       else (downWindow, max, ''ScaleDownStabilized'',
                             ''recent recommendations were higher than current one, applying the highest recent recommendation''));
                    maxDelaySeconds = max upWindow downWindow;
                    obsoleteCutoff = now - Second * maxDelaySeconds;
                    cutoff = now - Second * scaleDelaySeconds;
                    (recommendation', foundOldSample, oldSampleIndex) =
                      behaviorScan betterRecommendation cutoff obsoleteCutoff
                        (window recommendations (Key args)) 0 (DesiredReplicas args, False, 0);
                    sample = \<lparr>recommendation = DesiredReplicas args, timestamp = now\<rparr>
                in Returns ((recommendation', reason, message),
                     recommendations(Key args \<mapsto>
                       (if foundOldSample
                        then (window recommendations (Key args))[oldSampleIndex := sample]
                        else window recommendations (Key args) @ [sample]))))
           | _ \<Rightarrow> Panics)
      | _ \<Rightarrow> Panics)"

text \<open>
  \<open>maybeInitScaleDownStabilizationWindow\<close>: \<open>Duration.Seconds()\<close> is a \<open>float64\<close> and
  the conversion to \<open>int32\<close> truncates towards zero. \<open>truncSeconds\<close> truncates the exact
  quotient; Go rounds \<open>float64(sec) + float64(nsec)/1e9\<close> first, which differs only where
  that sum rounds up to the next whole second (a window of \<open>2^24\<close> seconds or more with
  a fraction of a second next to 1).
\<close>

definition truncSeconds :: "int \<Rightarrow> int" where
  "truncSeconds d = sgn d * (\<bar>d\<bar> div Second)"

definition maybeInitScaleDownStabilizationWindow ::
  "(int \<Rightarrow> int) \<Rightarrow> int \<Rightarrow> GeneralPodAutoscalerBehavior \<Rightarrow> GeneralPodAutoscalerBehavior" where
  "maybeInitScaleDownStabilizationWindow ovf downscaleStabilisationWindow behavior =
     (case ScaleDown behavior of
        Some down \<Rightarrow>
          (if StabilizationWindowSeconds down = None
           then behavior\<lparr>ScaleDown := Some (down\<lparr>StabilizationWindowSeconds :=
                  Some (float64_to_int32 ovf (truncSeconds downscaleStabilisationWindow))\<rparr>)\<rparr>
           else behavior)
      | None \<Rightarrow> behavior)"

text \<open>
  \<open>normalizeDesiredReplicasWithBehaviors\<close>, called with the non-nil
  \<open>gpa.Spec.Behavior\<close>. The result is the desired count, the conditions, the
  \<open>recommendations\<close> map and the behavior as \<open>maybeInitScaleDownStabilizationWindow\<close>
  left it.
\<close>

definition normalizeDesiredReplicasWithBehaviors ::
  "(int \<Rightarrow> int) \<Rightarrow> percent_ops \<Rightarrow> int \<Rightarrow> int \<Rightarrow> GeneralPodAutoscalerCondition list
     \<Rightarrow> (string \<rightharpoonup> timestampedRecommendation list)
     \<Rightarrow> (string \<rightharpoonup> timestampedScaleEvent list) \<Rightarrow> (string \<rightharpoonup> timestampedScaleEvent list)
     \<Rightarrow> GeneralPodAutoscalerBehavior \<Rightarrow> int \<Rightarrow> string \<Rightarrow> int \<Rightarrow> int \<Rightarrow> int
     \<Rightarrow> (int \<times> GeneralPodAutoscalerCondition list \<times> (string \<rightharpoonup> timestampedRecommendation list)
          \<times> GeneralPodAutoscalerBehavior) outcome" where
  "normalizeDesiredReplicasWithBehaviors ovf ops downscaleStabilisationWindow now conditions
       recommendations scaleUpEvents scaleDownEvents behavior gpaMaxReplicas key
       currentReplicas prenormalizedDesiredReplicas minReplicas =
     (let behavior = maybeInitScaleDownStabilizationWindow ovf downscaleStabilisationWindow behavior;
          normalizationArg =
            \<lparr>Key = key, ScaleUpBehavior = ScaleUp behavior, ScaleDownBehavior = ScaleDown behavior,
             MinReplicas = minReplicas, MaxReplicas = gpaMaxReplicas,
             CurrentReplicas = currentReplicas, DesiredReplicas = prenormalizedDesiredReplicas\<rparr>
      in case stabilizeRecommendationWithBehaviors now recommendations normalizationArg of
           Returns ((stabilizedRecommendation, reason, message), recommendations') \<Rightarrow>
             (let normalizationArg = normalizationArg\<lparr>DesiredReplicas := stabilizedRecommendation\<rparr>;
                  conditions =
                    (if stabilizedRecommendation \<noteq> prenormalizedDesiredReplicas
                     then setConditionInList now conditions ''AbleToScale'' ''True'' reason message
                     else setConditionInList now conditions ''AbleToScale'' ''True'' ''ReadyForNewScale''
                            ''recommended size matches current size'')
              in case convertDesiredReplicasWithBehaviorRate ops now scaleUpEvents scaleDownEvents
                        normalizationArg of
                   Returns (desiredReplicas, reason, message) \<Rightarrow>
                     Returns (desiredReplicas,
                       (if desiredReplicas = stabilizedRecommendation
                        then setConditionInList now conditions ''ScalingLimited'' ''False'' reason message
                        else setConditionInList now conditions ''ScalingLimited'' ''True'' reason message),
                       recommendations', behavior)
                 | Panics \<Rightarrow> Panics
                 | Diverges \<Rightarrow> Diverges)
         | Panics \<Rightarrow> Panics
         | Diverges \<Rightarrow> Diverges)"

section \<open>Scale-event bookkeeping\<close>

definition markScaleEventsOutdated ::
  "int \<Rightarrow> timestampedScaleEvent list \<Rightarrow> int \<Rightarrow> timestampedScaleEvent list" where
  "markScaleEventsOutdated now scaleEvents longestPolicyPeriod =
     (let period = Second * longestPolicyPeriod;
          cutoff = now - period
      in map (\<lambda>event. if eventTimestamp event < cutoff then event\<lparr>outdated := True\<rparr> else event)
           scaleEvents)"

definition getLongestPolicyPeriod :: "GPAScalingRules \<Rightarrow> int" where
  "getLongestPolicyPeriod scalingRules =
     foldl (\<lambda>longestPolicyPeriod policy.
              if PeriodSeconds policy > longestPolicyPeriod then PeriodSeconds policy
              else longestPolicyPeriod)
       0 (Policies scalingRules)"

text \<open>
  The loop of \<open>storeScaleEvent\<close> that looks for an outdated slot: the state is
  \<open>(foundOldSample, oldSampleIndex)\<close>.
\<close>

fun outdatedScan :: "timestampedScaleEvent list \<Rightarrow> nat \<Rightarrow> bool \<times> nat \<Rightarrow> bool \<times> nat" where
  "outdatedScan [] i st = st"
| "outdatedScan (event # events) i st =
     outdatedScan events (Suc i) (if outdated event then (True, i) else st)"

text \<open>One direction of \<open>storeScaleEvent\<close>: the window of the key after the call.\<close>

definition storeInWindow ::
  "int \<Rightarrow> timestampedScaleEvent list \<Rightarrow> int \<Rightarrow> int \<Rightarrow> timestampedScaleEvent list" where
  "storeInWindow now events longestPolicyPeriod replicaChange' =
     (let marked = markScaleEventsOutdated now events longestPolicyPeriod;
          (foundOldSample, oldSampleIndex) = outdatedScan marked 0 (False, 0);
          newEvent = \<lparr>replicaChange = replicaChange', eventTimestamp = now, outdated = False\<rparr>
      in if foundOldSample then marked[oldSampleIndex := newEvent] else marked @ [newEvent])"

text \<open>
  \<open>storeScaleEvent\<close> returns the maps \<open>(scaleUpEvents, scaleDownEvents)\<close>.
  \<open>getLongestPolicyPeriod\<close> reads the policies of the direction's rules: nil rules
  are a nil pointer dereference.
\<close>

definition storeScaleEvent ::
  "int \<Rightarrow> (string \<rightharpoonup> timestampedScaleEvent list) \<Rightarrow> (string \<rightharpoonup> timestampedScaleEvent list)
     \<Rightarrow> GeneralPodAutoscalerBehavior option \<Rightarrow> string \<Rightarrow> int \<Rightarrow> int
     \<Rightarrow> ((string \<rightharpoonup> timestampedScaleEvent list) \<times> (string \<rightharpoonup> timestampedScaleEvent list)) outcome" where
  "storeScaleEvent now scaleUpEvents scaleDownEvents behavior key prevReplicas newReplicas =
     (case behavior of
        None \<Rightarrow> Returns (scaleUpEvents, scaleDownEvents)
      | Some b \<Rightarrow>
          if newReplicas > prevReplicas then
            (case ScaleUp b of
               None \<Rightarrow> Panics
             | Some rules \<Rightarrow>
                 Returns (scaleUpEvents(key \<mapsto>
                            storeInWindow now (window scaleUpEvents key) (getLongestPolicyPeriod rules)
                              (wrap32 (newReplicas - prevReplicas))),
                          scaleDownEvents))
          else
            (case ScaleDown b of
               None \<Rightarrow> Panics
             | Some rules \<Rightarrow>
                 Returns (scaleUpEvents,
                          scaleDownEvents(key \<mapsto>
                            storeInWindow now (window scaleDownEvents key) (getLongestPolicyPeriod rules)
                              (wrap32 (prevReplicas - newReplicas))))))"

section \<open>The cron window resolver\<close>

record CronMetricSpec =
  Schedule :: string
  CronMinReplicas :: "int option"
  CronMaxReplicas :: int
  Priority :: int

text \<open>The zero value of the struct.\<close>

definition emptyCronMetricSpec :: CronMetricSpec where
  "emptyCronMetricSpec = \<lparr>Schedule = [], CronMinReplicas = None, CronMaxReplicas = 0, Priority = 0\<rparr>"

record CronMetricsScaler =
  ranges :: "CronMetricSpec list"
  defaultSet :: CronMetricSpec
  scalerName :: string
  scalerNow :: int

text \<open>
  \<open>NewCronMetricsScaler\<close>; \<open>Cron\<close> is the scaler's name, a constant of the package,
  and \<open>wall\<close> the reading of \<open>time.Now()\<close>.
\<close>

definition NewCronMetricsScaler :: "string \<Rightarrow> int \<Rightarrow> CronMetricSpec list \<Rightarrow> CronMetricsScaler" where
  "NewCronMetricsScaler Cron wall ranges' =
     (let (filter', def) =
            foldl (\<lambda>(filter', def) cr.
                     if Schedule cr \<noteq> ''default'' then (filter' @ [cr], def) else (filter', cr))
              ([], emptyCronMetricSpec) ranges'
      in \<lparr>ranges = filter', defaultSet = def, scalerName = Cron, scalerNow = wall\<rparr>)"

text \<open>
  The library calls of \<open>ParseStandardWithYear\<close>: \<open>strconv.Atoi\<close> and
  \<open>cron.ParseStandard\<close> of robfig/cron, whose schedule is its \<open>Next\<close> method. An error
  is \<open>Inl\<close> of its message.
\<close>

record cron_lib =
  Atoi :: "string \<Rightarrow> string + int"
  ParseStandard :: "string \<Rightarrow> string + (int \<Rightarrow> int)"

text \<open>\<open>strings.Split\<close> with a separator of one character, and \<open>strings.Join\<close>.\<close>

fun Split :: "string \<Rightarrow> char \<Rightarrow> string list" where
  "Split [] sep = [[]]"
| "Split (c # cs) sep =
     (if c = sep then [] # Split cs sep
      else (case Split cs sep of [] \<Rightarrow> [[c]] | w # ws \<Rightarrow> (c # w) # ws))"

fun Join :: "string list \<Rightarrow> string \<Rightarrow> string" where
  "Join [] sep = []"
| "Join [w] sep = w"
| "Join (w # ws) sep = w @ sep @ Join ws sep"

definition ParseStandardWithYear :: "cron_lib \<Rightarrow> string \<Rightarrow> string + (int \<times> (int \<Rightarrow> int))" where
  "ParseStandardWithYear lib schedule =
     (let schSlice = Split schedule CHR '' ''
      in if length schSlice > 5 then
           (case Atoi lib (schSlice ! (length schSlice - 1)) of
              Inl err \<Rightarrow> Inl err
            | Inr year \<Rightarrow>
                (let leaveSchedule = Join (take (length schSlice - 1) schSlice) '' ''
                 in case ParseStandard lib leaveSchedule of
                      Inl err \<Rightarrow> Inl err
                    | Inr sched \<Rightarrow> Inr (year, sched)))
         else
           (case ParseStandard lib schedule of
              Inl err \<Rightarrow> Inl err
            | Inr sched \<Rightarrow> Inr (0, sched)))"

text \<open>
  The calendar of \<open>time.Time\<close>: the year of the proleptic Gregorian calendar and the
  minute of the hour.
\<close>

definition yearOf :: "int \<Rightarrow> int" where
  "yearOf t =
     (let z = t div (24 * Hour) + 719468;
          era = z div 146097;
          doe = z - era * 146097;
          yoe = (doe - doe div 1460 + doe div 36524 - doe div 146096) div 365;
          doy = doe - (365 * yoe + yoe div 4 - yoe div 100);
          mp = (5 * doy + 2) div 153
      in yoe + era * 400 + (if mp < 10 then 0 else 1))"

definition minuteOf :: "int \<Rightarrow> int" where
  "minuteOf t = (t div Minute) mod 60"

text \<open>\<open>getYesterdayFirstTime\<close>: the start of the hour one hour before \<open>time.Now()\<close>.\<close>

definition getYesterdayFirstTime :: "int \<Rightarrow> int" where
  "getYesterdayFirstTime wall = (let t1 = wall - Hour in t1 - t1 mod Hour)"

text \<open>
  The loop of \<open>getFinalMatchAndMisMatch\<close>: it returns \<open>(misMatch, match)\<close>, and
  \<open>None\<close> when it never ends.
\<close>

partial_function (option) walkSchedule :: "(int \<Rightarrow> int) \<Rightarrow> int \<Rightarrow> int \<Rightarrow> int \<Rightarrow> (int \<times> int) option" where
  "walkSchedule sched now' misMatch t =
     (if \<not> t > now' then walkSchedule sched now' t (sched t) else Some (misMatch, t))"

text \<open>
  \<open>getFinalMatchAndMisMatch\<close>: the result is the error, or the pair
  \<open>(misMatch, match)\<close> when the schedule is active and \<open>None\<close> when it is not.
  \<open>Duration.Minutes() <= 1\<close> holds exactly for the durations of at most one minute
  (\<open>Sub\<close> saturates, and a duration over a minute has a fraction of at least
  \<open>1/(6 * 10^10)\<close>).
\<close>

definition getFinalMatchAndMisMatch ::
  "cron_lib \<Rightarrow> int \<Rightarrow> CronMetricsScaler \<Rightarrow> string \<Rightarrow> (string + (int \<times> int) option) outcome" where
  "getFinalMatchAndMisMatch lib wall s schedule =
     (case ParseStandardWithYear lib schedule of
        Inl err \<Rightarrow> Returns (Inl err)
      | Inr (year, sched) \<Rightarrow>
          if year \<noteq> 0 \<and> year \<noteq> yearOf (scalerNow s) then Returns (Inr None)
          else
            (let initTime = getYesterdayFirstTime wall
             in case walkSchedule sched (scalerNow s) initTime initTime of
                  None \<Rightarrow> Diverges
                | Some (misMatch, match) \<Rightarrow>
                    if scalerNow s - misMatch \<le> Minute
                       \<and> (scalerNow s > misMatch \<or> scalerNow s = misMatch)
                       \<and> (match - scalerNow s \<le> Minute \<or> minuteOf misMatch = minuteOf (scalerNow s))
                    then Returns (Inr (Some (misMatch, match)))
                    else Returns (Inr None)))"

text \<open>
  The first loop of \<open>GetCurrentMaxAndMinReplicas\<close>, which collects \<open>crs\<close>; \<open>Inl\<close> is
  the return on an error of \<open>getFinalMatchAndMisMatch\<close>.
\<close>

fun collectActive ::
  "cron_lib \<Rightarrow> int \<Rightarrow> CronMetricsScaler \<Rightarrow> CronMetricSpec list \<Rightarrow> CronMetricSpec list
     \<Rightarrow> (string + CronMetricSpec list) outcome" where
  "collectActive lib wall s [] crs = Returns (Inr crs)"
| "collectActive lib wall s (cr # rest) crs =
     (if Schedule cr = ''default'' then collectActive lib wall s rest crs
      else
        (case getFinalMatchAndMisMatch lib wall s (Schedule cr) of
           Returns (Inl err) \<Rightarrow> Returns (Inl err)
         | Returns (Inr None) \<Rightarrow> collectActive lib wall s rest crs
         | Returns (Inr (Some finalMatch)) \<Rightarrow> collectActive lib wall s rest (crs @ [cr])
         | Panics \<Rightarrow> Panics
         | Diverges \<Rightarrow> Diverges))"

text \<open>The second loop: the state is \<open>(maxPriority, maxCr)\<close>.\<close>

definition choosePriority :: "CronMetricSpec list \<Rightarrow> int \<times> CronMetricSpec" where
  "choosePriority crs =
     foldl (\<lambda>(maxPriority, maxCr) cr.
              if Priority cr \<ge> maxPriority then (Priority cr, cr) else (maxPriority, maxCr))
       (0, emptyCronMetricSpec) crs"

text \<open>
  \<open>GetCurrentMaxAndMinReplicas\<close> returns \<open>(max, min, schedule)\<close>; the package
  variable \<open>recordCronMetricsScheduleName\<close> always holds the returned name.
\<close>

definition GetCurrentMaxAndMinReplicas ::
  "cron_lib \<Rightarrow> int \<Rightarrow> CronMetricsScaler \<Rightarrow> (int \<times> int \<times> string) outcome" where
  "GetCurrentMaxAndMinReplicas lib wall s =
     (if CronMaxReplicas (defaultSet s) = 0 \<and> CronMinReplicas (defaultSet s) = None
      then Returns (2, 4, ''default empty'')
      else
        (case CronMinReplicas (defaultSet s) of
           None \<Rightarrow> Panics
         | Some min' \<Rightarrow>
             (let max' = CronMaxReplicas (defaultSet s);
                  recordCronMetricsScheduleName = Schedule (defaultSet s)
              in case collectActive lib wall s (ranges s) [] of
                   Returns (Inl err) \<Rightarrow> Returns (max', min', recordCronMetricsScheduleName)
                 | Returns (Inr crs) \<Rightarrow>
                     if length crs = 0 then Returns (max', min', recordCronMetricsScheduleName)
                     else
                       (let (maxPriority, maxCr) = choosePriority crs
                        in case CronMinReplicas maxCr of
                             None \<Rightarrow> Panics
                           | Some min'' \<Rightarrow> Returns (CronMaxReplicas maxCr, min'', Schedule maxCr))
                 | Panics \<Rightarrow> Panics
                 | Diverges \<Rightarrow> Diverges)))"

section \<open>The reconcile of one autoscaler\<close>

text \<open>
  Metric specifications, metric statuses and the webhook, time and event modes are
  opaque to the reconcile: they are modelled as strings.
\<close>

record GeneralPodAutoscalerStatus =
  StatusCurrentReplicas :: int
  StatusDesiredReplicas :: int
  LastScaleTime :: "int option"
  LastCronScheduleTime :: "int option"
  CurrentMetrics :: "string list"
  Conditions :: "GeneralPodAutoscalerCondition list"

record GeneralPodAutoscalerSpec =
  TargetAPIVersion :: string
  TargetKind :: string
  SpecMinReplicas :: "int option"
  SpecMaxReplicas :: int
  MetricMode :: "string list option"
  CronMetricMode :: "CronMetricSpec list option"
  TimeMode :: "string option"
  WebhookMode :: "string option"
  EventMode :: "string option"
  Behavior :: "GeneralPodAutoscalerBehavior option"

record GeneralPodAutoscaler =
  Spec :: GeneralPodAutoscalerSpec
  GPAStatus :: GeneralPodAutoscalerStatus

record Scale =
  ScaleSpecReplicas :: int
  ScaleStatusReplicas :: int
  ScaleStatusSelector :: string

text \<open>What a reconcile does to the platform, in the order of the calls.\<close>

datatype effect =
    RecordEvent string string
  | ScalesUpdate int
  | GPAUpdateStatus GeneralPodAutoscalerStatus
  | GPAUpdate GeneralPodAutoscalerStatus
  | GPAPatchLabels

text \<open>
  What one of \<open>computeReplicasForMetrics\<close>, \<open>computeReplicasForCronMetrics\<close> and
  \<open>computeReplicasForSimple\<close> leaves: the events it recorded (type and reason), the
  conditions of the GPA, and what it returned. They call the replica calculator and the scalers, which
  are outside the repository's core.
\<close>

record compute_result =
  computeEvents :: "(string \<times> string) list"
  computeConditions :: "GeneralPodAutoscalerCondition list"
  computeErr :: "string option"
  metricDesiredReplicas :: int
  metricName :: string
  metricStatuses :: "string list"

text \<open>
  The answers of the platform during one reconcile: the REST mapper, the scale client,
  the GPA client, the three computations above, and whether \<open>updateLabelsIfNeeded\<close>
  reaches its \<open>Patch\<close> call.
\<close>

record platform =
  ParseGroupVersion :: "string \<Rightarrow> string + string"
  RESTMappings :: "string \<times> string \<Rightarrow> string + string list"
  ScalesGet :: "string \<Rightarrow> string + Scale"
  LabelsPatched :: bool
  computeReplicasForMetrics :: "GeneralPodAutoscalerCondition list \<Rightarrow> compute_result"
  computeReplicasForCronMetrics :: "string \<Rightarrow> GeneralPodAutoscalerCondition list \<Rightarrow> compute_result"
  computeReplicasForSimple :: "GeneralPodAutoscalerCondition list \<Rightarrow> compute_result"
  ScalesUpdateErr :: "int \<Rightarrow> string option"
  UpdateStatusErr :: "string option"
  UpdateErr :: "string option"

text \<open>
  The state a reconcile works on: the GPA object, the effects so far and the three
  windows of the controller.
\<close>

record reconcile_state =
  gpa :: GeneralPodAutoscaler
  effects :: "effect list"
  recs :: "string \<rightharpoonup> timestampedRecommendation list"
  upEvents :: "string \<rightharpoonup> timestampedScaleEvent list"
  downEvents :: "string \<rightharpoonup> timestampedScaleEvent list"

definition emit :: "effect list \<Rightarrow> reconcile_state \<Rightarrow> reconcile_state" where
  "emit es st = st\<lparr>effects := effects st @ es\<rparr>"

definition setCondition ::
  "int \<Rightarrow> string \<Rightarrow> string \<Rightarrow> string \<Rightarrow> string \<Rightarrow> reconcile_state \<Rightarrow> reconcile_state" where
  "setCondition now conditionType status reason message st =
     st\<lparr>gpa := (gpa st)\<lparr>GPAStatus := (GPAStatus (gpa st))\<lparr>Conditions :=
          setConditionInList now (Conditions (GPAStatus (gpa st))) conditionType status reason message\<rparr>\<rparr>\<rparr>"

definition setConditions :: "GeneralPodAutoscalerCondition list \<Rightarrow> reconcile_state \<Rightarrow> reconcile_state" where
  "setConditions cs st =
     st\<lparr>gpa := (gpa st)\<lparr>GPAStatus := (GPAStatus (gpa st))\<lparr>Conditions := cs\<rparr>\<rparr>\<rparr>"

text \<open>
  \<open>setStatus\<close> rebuilds the status (the new literal has no \<open>LastCronScheduleTime\<close>).
\<close>

definition setStatus ::
  "int \<Rightarrow> int \<Rightarrow> int \<Rightarrow> string list \<Rightarrow> bool \<Rightarrow> reconcile_state \<Rightarrow> reconcile_state" where
  "setStatus now currentReplicas desiredReplicas statuses rescale st =
     (let old = GPAStatus (gpa st);
          new = \<lparr>StatusCurrentReplicas = currentReplicas, StatusDesiredReplicas = desiredReplicas,
                 LastScaleTime = LastScaleTime old, LastCronScheduleTime = None,
                 CurrentMetrics = statuses, Conditions = Conditions old\<rparr>;
          new = (if rescale
                 then (if TimeMode (Spec (gpa st)) \<noteq> None \<or> CronMetricMode (Spec (gpa st)) \<noteq> None
                       then new\<lparr>LastCronScheduleTime := Some now\<rparr> else new)\<lparr>LastScaleTime := Some now\<rparr>
                 else new)
      in st\<lparr>gpa := (gpa st)\<lparr>GPAStatus := new\<rparr>\<rparr>)"

definition setCurrentReplicasInStatus :: "int \<Rightarrow> int \<Rightarrow> reconcile_state \<Rightarrow> reconcile_state" where
  "setCurrentReplicasInStatus now currentReplicas st =
     setStatus now currentReplicas (StatusDesiredReplicas (GPAStatus (gpa st)))
       (CurrentMetrics (GPAStatus (gpa st))) False st"

text \<open>
  \<open>updateStatusIfNeeded\<close> and \<open>updateStatus\<close>: the error returned and the state with
  the calls made.
\<close>

definition updateStatusIfNeeded ::
  "platform \<Rightarrow> GeneralPodAutoscalerStatus \<Rightarrow> reconcile_state \<Rightarrow> string option \<times> reconcile_state" where
  "updateStatusIfNeeded env oldStatus st =
     (if oldStatus = GPAStatus (gpa st) then (None, st)
      else
        (case UpdateStatusErr env of
           None \<Rightarrow> (None, emit [GPAUpdateStatus (GPAStatus (gpa st))] st)
         | Some e \<Rightarrow>
             (UpdateErr env,
              emit [GPAUpdateStatus (GPAStatus (gpa st)), RecordEvent ''Warning'' ''FailedUpdateStatus'',
                    GPAUpdate (GPAStatus (gpa st))] st)))"

text \<open>\<open>scaleForResourceMappings\<close>: the loop remembers the error of the first mapping only.\<close>

fun scaleLoop :: "platform \<Rightarrow> string list \<Rightarrow> nat \<Rightarrow> string option \<Rightarrow> string + (Scale \<times> string)" where
  "scaleLoop env [] i firstErr =
     (case firstErr of None \<Rightarrow> Inl ''unrecognized resource'' | Some e \<Rightarrow> Inl e)"
| "scaleLoop env (mapping # mappings) i firstErr =
     (case ScalesGet env mapping of
        Inr scale \<Rightarrow> Inr (scale, mapping)
      | Inl e \<Rightarrow> scaleLoop env mappings (Suc i) (if i = 0 then Some e else firstErr))"

definition scaleForResourceMappings :: "platform \<Rightarrow> string list \<Rightarrow> string + (Scale \<times> string)" where
  "scaleForResourceMappings env mappings = scaleLoop env mappings 0 None"

definition recordInitialRecommendation ::
  "int \<Rightarrow> int \<Rightarrow> string \<Rightarrow> reconcile_state \<Rightarrow> reconcile_state" where
  "recordInitialRecommendation now currentReplicas key st =
     (if recs st key = None
      then st\<lparr>recs := (recs st)(key \<mapsto> [\<lparr>recommendation = currentReplicas, timestamp = now\<rparr>])\<rparr>
      else st)"

definition isEmpty :: "GeneralPodAutoscalerSpec \<Rightarrow> bool" where
  "isEmpty a \<longleftrightarrow>
     MetricMode a = None \<and> EventMode a = None \<and> TimeMode a = None \<and> WebhookMode a = None
     \<and> CronMetricMode a = None"

text \<open>
  The three failures to get the scale: an event, the condition, a status update whose
  error is only logged, and the error returned.
\<close>

definition failedGetScale ::
  "platform \<Rightarrow> int \<Rightarrow> GeneralPodAutoscalerStatus \<Rightarrow> string \<Rightarrow> string \<Rightarrow> reconcile_state
     \<Rightarrow> string option \<times> reconcile_state" where
  "failedGetScale env now gpaStatusOriginal e msg st =
     (let st = emit [RecordEvent ''Warning'' ''FailedGetScale''] st;
          st = setCondition now ''AbleToScale'' ''False'' ''FailedGetScale''
                 (''the GPA controller was unable to get the target's current scale: '' @ e) st;
          (updateErr, st) = updateStatusIfNeeded env gpaStatusOriginal st
      in (Some (msg @ e), st))"

text \<open>
  The cron override of the bounds: the schedule name and the state with
  \<open>gpa.Spec.MinReplicas\<close> and \<open>gpa.Spec.MaxReplicas\<close> overwritten.
\<close>

definition cronBounds ::
  "cron_lib \<Rightarrow> string \<Rightarrow> int \<Rightarrow> reconcile_state \<Rightarrow> (string \<times> reconcile_state) outcome" where
  "cronBounds lib Cron now st =
     (case CronMetricMode (Spec (gpa st)) of
        None \<Rightarrow> Returns ([], st)
      | Some cronMetrics \<Rightarrow>
          (case GetCurrentMaxAndMinReplicas lib now (NewCronMetricsScaler Cron now cronMetrics) of
             Returns (max', min', scheduleName) \<Rightarrow>
               Returns (scheduleName,
                 st\<lparr>gpa := (gpa st)\<lparr>Spec := (Spec (gpa st))\<lparr>SpecMinReplicas := Some min',
                                                              SpecMaxReplicas := max'\<rparr>\<rparr>\<rparr>)
           | Panics \<Rightarrow> Panics
           | Diverges \<Rightarrow> Diverges))"

text \<open>The \<open>switch\<close> over the driving modes.\<close>

definition computeByMode :: "platform \<Rightarrow> string \<Rightarrow> reconcile_state \<Rightarrow> compute_result" where
  "computeByMode env scheduleName st =
     (if MetricMode (Spec (gpa st)) \<noteq> None
      then computeReplicasForMetrics env (Conditions (GPAStatus (gpa st)))
      else if CronMetricMode (Spec (gpa st)) \<noteq> None
      then computeReplicasForCronMetrics env scheduleName (Conditions (GPAStatus (gpa st)))
      else computeReplicasForSimple env (Conditions (GPAStatus (gpa st))))"

text \<open>
  The normalization of a successfully computed proposal: the result is
  \<open>(desiredReplicas, rescale, metricStatuses)\<close> and the state.
\<close>

definition normalizeDecision ::
  "(int \<Rightarrow> int) \<Rightarrow> percent_ops \<Rightarrow> int \<Rightarrow> int \<Rightarrow> string \<Rightarrow> int \<Rightarrow> int \<Rightarrow> compute_result
     \<Rightarrow> reconcile_state \<Rightarrow> (int \<times> bool \<times> string list \<times> reconcile_state) outcome" where
  "normalizeDecision ovf ops downscaleStabilisationWindow now key currentReplicas minReplicas r st =
     (let gpaMaxReplicas = SpecMaxReplicas (Spec (gpa st));
          st = (if metricDesiredReplicas r > gpaMaxReplicas
                then emit [RecordEvent ''Warning'' ''FailedRescale''] st else st);
          desiredReplicas = (if metricDesiredReplicas r > 0 then metricDesiredReplicas r else 0)
      in case Behavior (Spec (gpa st)) of
           None \<Rightarrow>
             (let (desiredReplicas, conditions, recommendations') =
                    normalizeDesiredReplicas ovf downscaleStabilisationWindow now
                      (Conditions (GPAStatus (gpa st))) (recs st) key currentReplicas
                      desiredReplicas minReplicas gpaMaxReplicas
              in Returns (desiredReplicas, desiredReplicas \<noteq> currentReplicas, metricStatuses r,
                   (setConditions conditions st)\<lparr>recs := recommendations'\<rparr>))
         | Some behavior \<Rightarrow>
             (case normalizeDesiredReplicasWithBehaviors ovf ops downscaleStabilisationWindow
                     now (Conditions (GPAStatus (gpa st))) (recs st) (upEvents st)
                     (downEvents st) behavior gpaMaxReplicas key currentReplicas
                     desiredReplicas minReplicas of
                Returns (desiredReplicas, conditions, recommendations', behavior') \<Rightarrow>
                  (let st = (setConditions conditions st)\<lparr>recs := recommendations'\<rparr>;
                       st = st\<lparr>gpa := (gpa st)\<lparr>Spec := (Spec (gpa st))\<lparr>Behavior :=
                              Some behavior'\<rparr>\<rparr>\<rparr>
                   in Returns (desiredReplicas, desiredReplicas \<noteq> currentReplicas,
                        metricStatuses r, st))
              | Panics \<Rightarrow> Panics
              | Diverges \<Rightarrow> Diverges))"

text \<open>The return of \<open>reconcileAutoscaler\<close> on a failed computation.\<close>

definition failedCompute ::
  "platform \<Rightarrow> int \<Rightarrow> GeneralPodAutoscalerStatus \<Rightarrow> int \<Rightarrow> string \<Rightarrow> reconcile_state
     \<Rightarrow> string option \<times> reconcile_state" where
  "failedCompute env now gpaStatusOriginal currentReplicas e st =
     (let st = setCurrentReplicasInStatus now currentReplicas st;
          (updateErr, st) = updateStatusIfNeeded env gpaStatusOriginal st;
          st = emit [RecordEvent ''Warning'' ''FailedComputeMetricsReplicas''] st
      in (Some (''failed to compute desired number of replicas based on listed metrics: '' @ e), st))"

text \<open>
  The gates and the decision: \<open>Inl\<close> is an early return of \<open>reconcileAutoscaler\<close>,
  \<open>Inr\<close> carries \<open>(desiredReplicas, rescale, metricStatuses)\<close> and the state.
\<close>

definition decide ::
  "(int \<Rightarrow> int) \<Rightarrow> percent_ops \<Rightarrow> platform \<Rightarrow> int \<Rightarrow> int \<Rightarrow> string
     \<Rightarrow> GeneralPodAutoscalerStatus \<Rightarrow> Scale \<Rightarrow> string \<Rightarrow> int \<Rightarrow> reconcile_state
     \<Rightarrow> ((string option \<times> reconcile_state) + (int \<times> bool \<times> string list \<times> reconcile_state)) outcome" where
  "decide ovf ops env downscaleStabilisationWindow now key gpaStatusOriginal scale scheduleName
       minReplicas st =
     (let currentReplicas = ScaleSpecReplicas scale;
          gpaMaxReplicas = SpecMaxReplicas (Spec (gpa st))
      in if ScaleSpecReplicas scale = 0 \<and> minReplicas \<noteq> 0 then
           Returns (Inr (0, False, [],
             setCondition now ''ScalingActive'' ''False'' ''ScalingDisabled''
               ''scaling is disabled since the replica count of the target is zero'' st))
         else if currentReplicas > gpaMaxReplicas then Returns (Inr (gpaMaxReplicas, True, [], st))
         else if currentReplicas < minReplicas then Returns (Inr (minReplicas, True, [], st))
         else if isEmpty (Spec (gpa st)) then Returns (Inl (None, st))
         else
           (let r = computeByMode env scheduleName st;
                st = emit (map (\<lambda>(eventtype, reason). RecordEvent eventtype reason) (computeEvents r))
                       (setConditions (computeConditions r) st)
            in case computeErr r of
                 Some e \<Rightarrow> Returns (Inl (failedCompute env now gpaStatusOriginal currentReplicas e st))
               | None \<Rightarrow>
                   (case normalizeDecision ovf ops downscaleStabilisationWindow now key
                           currentReplicas minReplicas r st of
                      Returns decision \<Rightarrow> Returns (Inr decision)
                    | Panics \<Rightarrow> Panics
                    | Diverges \<Rightarrow> Diverges)))"

text \<open>
  The end of \<open>reconcileAutoscaler\<close>, from \<open>if rescale\<close>. The scale event of the
  \<open>SuccessfulRescale\<close> message reads \<open>*gpa.Spec.MinReplicas\<close>. The texts of the
  conditions and of the errors are abridged: the formatted replica counts and the
  reference of the target are left out.
\<close>

definition rescalePhase ::
  "platform \<Rightarrow> int \<Rightarrow> string \<Rightarrow> GeneralPodAutoscalerStatus \<Rightarrow> int \<Rightarrow> int \<Rightarrow> string list \<Rightarrow> bool
     \<Rightarrow> reconcile_state \<Rightarrow> (string option \<times> reconcile_state) outcome" where
  "rescalePhase env now key gpaStatusOriginal currentReplicas desiredReplicas statuses rescale st =
     (if rescale then
        (if desiredReplicas = 0 then
           Returns (Some ''failed to rescale: desiredReplicas=0 skip modify replcias'',
                    emit [RecordEvent ''Warning'' ''FailedRescale''] st)
         else
           (let st = emit [ScalesUpdate desiredReplicas] st
            in case ScalesUpdateErr env desiredReplicas of
                 Some e \<Rightarrow>
                   (let st = emit [RecordEvent ''Warning'' ''FailedRescale''] st;
                        st = setCondition now ''AbleToScale'' ''False'' ''FailedUpdateScale''
                               (''the GPA controller was unable to update the target scale: '' @ e) st;
                        st = setCurrentReplicasInStatus now currentReplicas st;
                        (updateErr, st) = updateStatusIfNeeded env gpaStatusOriginal st
                    in Returns (Some (''failed to rescale: '' @ e), st))
               | None \<Rightarrow>
                   (case SpecMinReplicas (Spec (gpa st)) of
                      None \<Rightarrow> Panics
                    | Some specMin \<Rightarrow>
                        (let st = setCondition now ''AbleToScale'' ''True'' ''SucceededRescale''
                                    ''the GPA controller was able to update the target scale'' st
                         in case storeScaleEvent now (upEvents st) (downEvents st)
                                   (Behavior (Spec (gpa st))) key currentReplicas desiredReplicas of
                              Returns (up, down) \<Rightarrow>
                                (let st = st\<lparr>upEvents := up, downEvents := down\<rparr>;
                                     st = emit [RecordEvent ''Normal'' ''SuccessfulRescale''] st;
                                     st = setStatus now currentReplicas desiredReplicas statuses rescale st
                                 in Returns (updateStatusIfNeeded env gpaStatusOriginal st))
                            | Panics \<Rightarrow> Panics
                            | Diverges \<Rightarrow> Diverges))))
      else
        (let desiredReplicas = currentReplicas;
             st = setStatus now currentReplicas desiredReplicas statuses rescale st
         in Returns (updateStatusIfNeeded env gpaStatusOriginal st)))"

text \<open>
  The beginning of \<open>reconcileAutoscaler\<close>, up to the bounds: \<open>Inl\<close> is the return on a
  failure to get the scale, \<open>Inr\<close> carries the scale, the schedule name and the state.
\<close>

definition prepare ::
  "cron_lib \<Rightarrow> string \<Rightarrow> platform \<Rightarrow> int \<Rightarrow> string \<Rightarrow> reconcile_state
     \<Rightarrow> ((string option \<times> reconcile_state) + (Scale \<times> string \<times> reconcile_state)) outcome" where
  "prepare lib Cron env now key st =
     (let gpaStatusOriginal = GPAStatus (gpa st)
      in case ParseGroupVersion env (TargetAPIVersion (Spec (gpa st))) of
           Inl e \<Rightarrow>
             Returns (Inl (failedGetScale env now gpaStatusOriginal e
               ''invalid API version in scale target reference: '' st))
         | Inr targetGroup \<Rightarrow>
             (case RESTMappings env (targetGroup, TargetKind (Spec (gpa st))) of
                Inl e \<Rightarrow>
                  Returns (Inl (failedGetScale env now gpaStatusOriginal e
                    ''unable to determine resource for scale target reference: '' st))
              | Inr mappings \<Rightarrow>
                  (case scaleForResourceMappings env mappings of
                     Inl e \<Rightarrow>
                       Returns (Inl (failedGetScale env now gpaStatusOriginal e
                         ''failed to query scale subresource: '' st))
                   | Inr (scale, targetGR) \<Rightarrow>
                       (let st = (if ScaleStatusSelector scale \<noteq> [] \<and> LabelsPatched env
                                  then emit [GPAPatchLabels] st else st);
                            st = setCondition now ''AbleToScale'' ''True'' ''SucceededGetScale''
                                   ''the GPA controller was able to get the target's current scale'' st;
                            st = recordInitialRecommendation now (ScaleSpecReplicas scale) key st
                        in case cronBounds lib Cron now st of
                             Returns (scheduleName, st) \<Rightarrow> Returns (Inr (scale, scheduleName, st))
                           | Panics \<Rightarrow> Panics
                           | Diverges \<Rightarrow> Diverges))))"

text \<open>The effective minimum: \<open>gpa.Spec.MinReplicas\<close>, or 1 when it is not set.\<close>

definition effectiveMinReplicas :: "reconcile_state \<Rightarrow> int" where
  "effectiveMinReplicas st = (case SpecMinReplicas (Spec (gpa st)) of Some m \<Rightarrow> m | None \<Rightarrow> 1)"

text \<open>
  \<open>reconcileAutoscaler\<close>: the error returned (\<open>None\<close> for nil) and the final state.
  The clock readings of one reconcile are taken as the one instant \<open>now\<close>, and
  \<open>gpaStatusOriginal\<close> is the deep copy of the status taken first.
\<close>

definition reconcileAutoscaler ::
  "(int \<Rightarrow> int) \<Rightarrow> percent_ops \<Rightarrow> cron_lib \<Rightarrow> string \<Rightarrow> platform \<Rightarrow> int \<Rightarrow> int \<Rightarrow> string
     \<Rightarrow> reconcile_state \<Rightarrow> (string option \<times> reconcile_state) outcome" where
  "reconcileAutoscaler ovf ops lib Cron env downscaleStabilisationWindow now key st =
     (let gpaStatusOriginal = GPAStatus (gpa st)
      in case prepare lib Cron env now key st of
           Returns (Inl early) \<Rightarrow> Returns early
         | Returns (Inr (scale, scheduleName, st)) \<Rightarrow>
             (case decide ovf ops env downscaleStabilisationWindow now key gpaStatusOriginal
                     scale scheduleName (effectiveMinReplicas st) st of
                Returns (Inl early) \<Rightarrow> Returns early
              | Returns (Inr (desiredReplicas, rescale, statuses, st)) \<Rightarrow>
                  rescalePhase env now key gpaStatusOriginal (ScaleSpecReplicas scale)
                    desiredReplicas statuses rescale st
              | Panics \<Rightarrow> Panics
              | Diverges \<Rightarrow> Diverges)
         | Panics \<Rightarrow> Panics
         | Diverges \<Rightarrow> Diverges)"

section \<open>The specification's wording, for comparison\<close>

text \<open>
  The legacy stabilizer as the specification words it: the maximum of the proposal and
  of the recommendations newer than \<open>now - downscaleStabilisationWindow\<close>; the oldest
  sample out of the window is replaced by the new one, which is appended when no
  sample is out of the window. \<open>oldestSample\<close> scans for the index of the sample
  with the least timestamp among those older than the cutoff.
\<close>

fun oldestSample ::
  "int \<Rightarrow> timestampedRecommendation list \<Rightarrow> nat \<Rightarrow> (nat \<times> int) option \<Rightarrow> (nat \<times> int) option" where
  "oldestSample cutoff [] i best = best"
| "oldestSample cutoff (r # rs) i best =
     oldestSample cutoff rs (Suc i)
       (if timestamp r < cutoff \<and> (case best of None \<Rightarrow> True | Some (j, t) \<Rightarrow> timestamp r < t)
        then Some (i, timestamp r) else best)"

definition stabilizeRecommendationSpec ::
  "int \<Rightarrow> int \<Rightarrow> (string \<rightharpoonup> timestampedRecommendation list) \<Rightarrow> string \<Rightarrow> int
     \<Rightarrow> int \<times> (string \<rightharpoonup> timestampedRecommendation list)" where
  "stabilizeRecommendationSpec downscaleStabilisationWindow now recommendations key preDesired =
     (let cutoff = now - downscaleStabilisationWindow;
          sample = \<lparr>recommendation = preDesired, timestamp = now\<rparr>
      in (foldl max preDesired
            (map recommendation (filter (\<lambda>r. timestamp r > cutoff) (window recommendations key))),
          recommendations(key \<mapsto>
            (case oldestSample cutoff (window recommendations key) 0 None of
               Some (i, t) \<Rightarrow> (window recommendations key)[i := sample]
             | None \<Rightarrow> window recommendations key @ [sample]))))"




text \<open>
  The rate limits as the specification words them. \<open>scaleUpProposals\<close> and
  \<open>scaleDownProposals\<close> are the replica counts that the policies of type \<open>Pods\<close> and
  \<open>Percent\<close> allow, one per policy. \<open>Max\<close> selects the most permissive of them (the
  highest count for scale-up, the lowest for scale-down), \<open>Min\<close> the least permissive,
  and \<open>Disabled\<close> returns the current count.
\<close>

definition scaleUpProposals ::
  "percent_ops \<Rightarrow> int \<Rightarrow> int \<Rightarrow> timestampedScaleEvent list \<Rightarrow> GPAScalingPolicy list \<Rightarrow> int list" where
  "scaleUpProposals ops now currentReplicas scaleEvents policies =
     List.map_filter
       (\<lambda>policy.
          let periodStart = wrap32 (currentReplicas
                - getReplicasChangePerPeriod now (PeriodSeconds policy) scaleEvents)
          in case PolicyType policy of
               PodsScalingPolicy \<Rightarrow> Some (wrap32 (periodStart + Value policy))
             | PercentScalingPolicy \<Rightarrow> Some (percentUp ops periodStart (Value policy))
             | OtherScalingPolicy other \<Rightarrow> None)
       policies"

definition scaleDownProposals ::
  "percent_ops \<Rightarrow> int \<Rightarrow> int \<Rightarrow> timestampedScaleEvent list \<Rightarrow> GPAScalingPolicy list \<Rightarrow> int list" where
  "scaleDownProposals ops now currentReplicas scaleEvents policies =
     List.map_filter
       (\<lambda>policy.
          let periodStart = wrap32 (currentReplicas
                + getReplicasChangePerPeriod now (PeriodSeconds policy) scaleEvents)
          in case PolicyType policy of
               PodsScalingPolicy \<Rightarrow> Some (wrap32 (periodStart - Value policy))
             | PercentScalingPolicy \<Rightarrow> Some (percentDown ops periodStart (Value policy))
             | OtherScalingPolicy other \<Rightarrow> None)
       policies"

definition scaleUpLimitSpec ::
  "percent_ops \<Rightarrow> int \<Rightarrow> int \<Rightarrow> timestampedScaleEvent list \<Rightarrow> GPAScalingRules \<Rightarrow> int" where
  "scaleUpLimitSpec ops now currentReplicas scaleEvents rules =
     (let proposals = scaleUpProposals ops now currentReplicas scaleEvents (Policies rules)
      in if SelectPolicy rules = Some DisabledPolicySelect then currentReplicas
         else if SelectPolicy rules = Some MinPolicySelect then Min (set proposals)
         else Max (set proposals))"

definition scaleDownLimitSpec ::
  "percent_ops \<Rightarrow> int \<Rightarrow> int \<Rightarrow> timestampedScaleEvent list \<Rightarrow> GPAScalingRules \<Rightarrow> int" where
  "scaleDownLimitSpec ops now currentReplicas scaleEvents rules =
     (let proposals = scaleDownProposals ops now currentReplicas scaleEvents (Policies rules)
      in if SelectPolicy rules = Some DisabledPolicySelect then currentReplicas
         else if SelectPolicy rules = Some MinPolicySelect then Max (set proposals)
         else Min (set proposals))"

text \<open>
  The active-window test of an entry, as \<open>GetCurrentMaxAndMinReplicas\<close> reads it off
  \<open>getFinalMatchAndMisMatch\<close>: \<open>scheduleChecked\<close> when the test returns without an
  error, \<open>activeAt\<close> when it returns a final match.
\<close>

definition scheduleChecked :: "cron_lib \<Rightarrow> int \<Rightarrow> CronMetricsScaler \<Rightarrow> CronMetricSpec \<Rightarrow> bool" where
  "scheduleChecked lib wall s cr \<longleftrightarrow>
     (case getFinalMatchAndMisMatch lib wall s (Schedule cr) of
        Returns (Inr finalMatch) \<Rightarrow> True
      | _ \<Rightarrow> False)"

definition activeAt :: "cron_lib \<Rightarrow> int \<Rightarrow> CronMetricsScaler \<Rightarrow> CronMetricSpec \<Rightarrow> bool" where
  "activeAt lib wall s cr \<longleftrightarrow>
     (case getFinalMatchAndMisMatch lib wall s (Schedule cr) of
        Returns (Inr (Some finalMatch)) \<Rightarrow> True
      | _ \<Rightarrow> False)"

text \<open>
  The active-window test as the specification words it, at the instant \<open>now\<close>: the
  year guard, and the walk of the iterator from the start of the hour one hour before
  \<open>now\<close>. \<open>None\<close> when the schedule does not parse or the walk does not end.
\<close>

definition activeWindowSpec :: "cron_lib \<Rightarrow> int \<Rightarrow> string \<Rightarrow> bool option" where
  "activeWindowSpec lib now schedule =
     (case ParseStandardWithYear lib schedule of
        Inl err \<Rightarrow> None
      | Inr (year, sched) \<Rightarrow>
          (let start = (now - Hour) - (now - Hour) mod Hour
           in case walkSchedule sched now start start of
                None \<Rightarrow> None
              | Some (misMatch, match) \<Rightarrow>
                  Some ((length (Split schedule CHR '' '') \<le> 5 \<or> yearOf now = year)
                        \<and> now - misMatch \<le> Minute
                        \<and> (match - now \<le> Minute \<or> minuteOf misMatch = minuteOf now))))"

section \<open>Example inputs\<close>

text \<open>
  Concrete collaborators and objects on which the theorems below are instantiated: a
  cron library that knows the schedules \<open>* * * * *\<close> (it fires at every full minute)
  and \<open>*/30 * * * *\<close> (at every full and half hour) and parses unsigned decimal numbers, and a platform whose calls all succeed, whose
  target has \<open>currentReplicas\<close> replicas and whose metrics propose \<open>proposal\<close>.
\<close>

definition everyMinute :: "int \<Rightarrow> int" where
  "everyMinute t = (t div Minute + 1) * Minute"

definition exampleAtoi :: "string \<Rightarrow> string + int" where
  "exampleAtoi w =
     (if w \<noteq> [] \<and> list_all (\<lambda>c. c \<in> set ''0123456789'') w
      then Inr (foldl (\<lambda>n c. 10 * n + (int (of_char c) - 48)) 0 w)
      else Inl ''invalid syntax'')"

definition everyHalfHour :: "int \<Rightarrow> int" where
  "everyHalfHour t = (t div (30 * Minute) + 1) * (30 * Minute)"

definition exampleLib :: cron_lib where
  "exampleLib =
     \<lparr>Atoi = exampleAtoi,
      ParseStandard = (\<lambda>w. if w = ''* * * * *'' then Inr everyMinute
                           else if w = ''*/30 * * * *'' then Inr everyHalfHour
                           else Inl ''invalid schedule'')\<rparr>"

definition exampleFirst :: CronMetricSpec where
  "exampleFirst =
     \<lparr>Schedule = ''*/30 * * * *'', CronMinReplicas = Some 6, CronMaxReplicas = 8, Priority = 5\<rparr>"

definition exampleSecond :: CronMetricSpec where
  "exampleSecond =
     \<lparr>Schedule = ''*/30 * * * * 1970'', CronMinReplicas = Some 1, CronMaxReplicas = 3, Priority = 5\<rparr>"

definition exampleUnparseable :: CronMetricSpec where
  "exampleUnparseable =
     \<lparr>Schedule = ''every day'', CronMinReplicas = Some 1, CronMaxReplicas = 3, Priority = 0\<rparr>"

definition exampleDefault :: CronMetricSpec where
  "exampleDefault =
     \<lparr>Schedule = ''default'', CronMinReplicas = Some 9, CronMaxReplicas = 10, Priority = 0\<rparr>"

text \<open>A scaler made at 01:00:01 on January 1, 1970.\<close>

definition exampleScaler :: "CronMetricSpec list \<Rightarrow> CronMetricsScaler" where
  "exampleScaler specs = NewCronMetricsScaler ''cron'' (Hour + Second) specs"

definition exampleCompute :: "int \<Rightarrow> GeneralPodAutoscalerCondition list \<Rightarrow> compute_result" where
  "exampleCompute proposal conditions =
     \<lparr>computeEvents = [], computeConditions = conditions, computeErr = None,
      metricDesiredReplicas = proposal, metricName = ''cpu resource'', metricStatuses = []\<rparr>"

definition examplePlatform :: "int \<Rightarrow> int \<Rightarrow> platform" where
  "examplePlatform currentReplicas proposal =
     \<lparr>ParseGroupVersion = (\<lambda>v. Inr ''apps''),
      RESTMappings = (\<lambda>gk. Inr [''deployments'']),
      ScalesGet = (\<lambda>m. Inr \<lparr>ScaleSpecReplicas = currentReplicas,
                              ScaleStatusReplicas = currentReplicas,
                              ScaleStatusSelector = ''app=web''\<rparr>),
      LabelsPatched = False,
      computeReplicasForMetrics = exampleCompute proposal,
      computeReplicasForCronMetrics = (\<lambda>scheduleName. exampleCompute proposal),
      computeReplicasForSimple = exampleCompute proposal,
      ScalesUpdateErr = (\<lambda>n. None),
      UpdateStatusErr = None,
      UpdateErr = None\<rparr>"

definition exampleOps :: percent_ops where
  "exampleOps = \<lparr>percentUp = (\<lambda>p v. - ((- (p * (100 + v))) div 100)),
                 percentDown = (\<lambda>p v. (p * (100 - v)) div 100)\<rparr>"

definition exampleGPA :: "int option \<Rightarrow> int \<Rightarrow> string list option \<Rightarrow> GeneralPodAutoscaler" where
  "exampleGPA minReplicas maxReplicas metricMode =
     \<lparr>Spec = \<lparr>TargetAPIVersion = ''apps/v1'', TargetKind = ''Deployment'',
               SpecMinReplicas = minReplicas, SpecMaxReplicas = maxReplicas,
               MetricMode = metricMode, CronMetricMode = None, TimeMode = None,
               WebhookMode = None, EventMode = None, Behavior = None\<rparr>,
      GPAStatus = \<lparr>StatusCurrentReplicas = 0, StatusDesiredReplicas = 0, LastScaleTime = None,
                    LastCronScheduleTime = None, CurrentMetrics = [], Conditions = []\<rparr>\<rparr>"

definition podsPolicy :: "int \<Rightarrow> int \<Rightarrow> GPAScalingPolicy" where
  "podsPolicy pods periodSeconds =
     \<lparr>PolicyType = PodsScalingPolicy, Value = pods, PeriodSeconds = periodSeconds\<rparr>"

definition exampleRules :: "ScalingPolicySelect \<Rightarrow> GPAScalingRules" where
  "exampleRules select =
     \<lparr>StabilizationWindowSeconds = Some 0, SelectPolicy = Some select,
      Policies = [podsPolicy 4 60, podsPolicy 2 60]\<rparr>"


definition exampleState ::
  "GeneralPodAutoscaler \<Rightarrow> (string \<rightharpoonup> timestampedRecommendation list) \<Rightarrow> reconcile_state" where
  "exampleState g recommendations =
     \<lparr>gpa = g, effects = [], recs = recommendations, upEvents = Map.empty, downEvents = Map.empty\<rparr>"

section \<open>The legacy clamp and the bounds after normalization\<close>













section \<open>The condition list\<close>

lemma findCondition_Some:
  "findCondition xs t i = Some k \<Longrightarrow>
     i \<le> k \<and> k - i < length xs \<and> CondType (xs ! (k - i)) = t
     \<and> find (\<lambda>c. CondType c = t) xs = Some (xs ! (k - i))"
proof (induction xs arbitrary: i)
  case Nil
  then show ?case by simp
next
  case (Cons c cs)
  show ?case
  proof (cases "CondType c = t")
    case True
    with Cons.prems show ?thesis by simp
  next
    case False
    with Cons.prems have "findCondition cs t (Suc i) = Some k" by simp
    from Cons.IH[OF this] False show ?thesis
      by (auto simp: nth_Cons' Suc_diff_Suc)
  qed
qed

lemma findCondition_None:
  "findCondition xs t i = None \<Longrightarrow>
     t \<notin> set (map CondType xs) \<and> find (\<lambda>c. CondType c = t) xs = None"
  by (induction xs arbitrary: i) (auto split: if_splits)

text \<open>
  C8. If no two entries of the list have the same type, no two entries of the list
  that \<open>setConditionInList\<close> returns have. When the list has an entry of the type, that
  entry alone is changed: its \<open>lastTransitionTime\<close> becomes \<open>now\<close> if its status differs
  from the new one and is kept otherwise. When it has none, one entry is appended,
  created with the empty status: its \<open>lastTransitionTime\<close> is \<open>now\<close> unless the new
  status is the empty one too.
\<close>

theorem setConditionInList_types_distinct:
  assumes "distinct (map CondType inputList)"
  shows "distinct (map CondType (setConditionInList now inputList conditionType status reason message))
     \<and> (case find (\<lambda>c. CondType c = conditionType) inputList of
           Some c \<Rightarrow>
             (\<exists>i < length inputList. inputList ! i = c \<and>
                setConditionInList now inputList conditionType status reason message =
                  inputList[i := c\<lparr>LastTransitionTime :=
                                      (if Status c \<noteq> status then now else LastTransitionTime c),
                                    Status := status, Reason := reason, Message := message\<rparr>])
         | None \<Rightarrow>
             setConditionInList now inputList conditionType status reason message =
               inputList @ [\<lparr>CondType = conditionType, Status = status,
                              LastTransitionTime = (if status \<noteq> [] then now else zeroTime),
                              Reason = reason, Message = message\<rparr>])"
proof (cases "findCondition inputList conditionType 0")
  case None
  from findCondition_None[OF None] assms show ?thesis
    by (auto simp: setConditionInList_def None emptyCondition_def)
next
  case (Some k)
  from findCondition_Some[OF Some]
  have k: "k < length inputList" and t: "CondType (inputList ! k) = conditionType"
    and f: "find (\<lambda>c. CondType c = conditionType) inputList = Some (inputList ! k)"
    by simp_all
  have upd: "setConditionInList now inputList conditionType status reason message =
      inputList[k := (inputList ! k)\<lparr>LastTransitionTime :=
                          (if Status (inputList ! k) \<noteq> status then now
                           else LastTransitionTime (inputList ! k)),
                        Status := status, Reason := reason, Message := message\<rparr>]"
    by (simp add: setConditionInList_def Some)
  have "map CondType (setConditionInList now inputList conditionType status reason message)
      = map CondType inputList"
    using k t by (simp add: upd map_update list_update_same_conv)
  with assms k f upd show ?thesis by auto
qed

theorem setConditionInList_types_distinct_witness:
  "distinct (map CondType
      [\<lparr>CondType = ''AbleToScale'', Status = ''True'', LastTransitionTime = 5,
         Reason = ''SucceededGetScale'', Message = []\<rparr>,
       \<lparr>CondType = ''ScalingActive'', Status = ''False'', LastTransitionTime = 7,
         Reason = ''FailedGetResourceMetric'', Message = []\<rparr>])
   \<and> distinct (map CondType (setConditionInList 9
      [\<lparr>CondType = ''AbleToScale'', Status = ''True'', LastTransitionTime = 5,
         Reason = ''SucceededGetScale'', Message = []\<rparr>,
       \<lparr>CondType = ''ScalingActive'', Status = ''False'', LastTransitionTime = 7,
         Reason = ''FailedGetResourceMetric'', Message = []\<rparr>]
      ''ScalingActive'' ''True'' ''ValidMetricFound'' []))
   \<and> map LastTransitionTime (setConditionInList 9
      [\<lparr>CondType = ''AbleToScale'', Status = ''True'', LastTransitionTime = 5,
         Reason = ''SucceededGetScale'', Message = []\<rparr>,
       \<lparr>CondType = ''ScalingActive'', Status = ''False'', LastTransitionTime = 7,
         Reason = ''FailedGetResourceMetric'', Message = []\<rparr>]
      ''ScalingActive'' ''True'' ''ValidMetricFound'' []) = [5, 9]"
proof -
  have h: "distinct (map CondType
      [\<lparr>CondType = ''AbleToScale'', Status = ''True'', LastTransitionTime = 5,
         Reason = ''SucceededGetScale'', Message = []\<rparr>,
       \<lparr>CondType = ''ScalingActive'', Status = ''False'', LastTransitionTime = 7,
         Reason = ''FailedGetResourceMetric'', Message = []\<rparr>])"
    by simp
  have v: "setConditionInList 9
      [\<lparr>CondType = ''AbleToScale'', Status = ''True'', LastTransitionTime = 5,
         Reason = ''SucceededGetScale'', Message = []\<rparr>,
       \<lparr>CondType = ''ScalingActive'', Status = ''False'', LastTransitionTime = 7,
         Reason = ''FailedGetResourceMetric'', Message = []\<rparr>]
      ''ScalingActive'' ''True'' ''ValidMetricFound'' [] =
      [\<lparr>CondType = ''AbleToScale'', Status = ''True'', LastTransitionTime = 5,
         Reason = ''SucceededGetScale'', Message = []\<rparr>,
       \<lparr>CondType = ''ScalingActive'', Status = ''True'', LastTransitionTime = 9,
         Reason = ''ValidMetricFound'', Message = []\<rparr>]"
    by (simp add: setConditionInList_def)
  from setConditionInList_types_distinct[OF h, of 9 "''ScalingActive''" "''True''"
      "''ValidMetricFound''" "[]"] h
  show ?thesis unfolding v by simp
qed

section \<open>The cron window resolver\<close>

text \<open>
  C9. When the default entry is absent, that is the scaler's \<open>defaultSet\<close> has
  \<open>MaxReplicas = 0\<close> and no \<open>MinReplicas\<close>, \<open>GetCurrentMaxAndMinReplicas\<close> returns the
  maximum 2, the minimum 4 and the name \<open>default empty\<close>: the minimum returned is above
  the maximum returned.
\<close>

theorem default_absent_bounds:
  assumes "CronMaxReplicas (defaultSet s) = 0" and "CronMinReplicas (defaultSet s) = None"
  shows "\<exists>max' min'. GetCurrentMaxAndMinReplicas lib wall s = Returns (max', min', ''default empty'')
           \<and> max' = 2 \<and> min' = 4 \<and> max' < min'"
  using assms by (simp add: GetCurrentMaxAndMinReplicas_def)

theorem default_absent_bounds_witness:
  "CronMaxReplicas (defaultSet (NewCronMetricsScaler ''cron'' (100 * Second)
       [\<lparr>Schedule = ''* * * * *'', CronMinReplicas = Some 6, CronMaxReplicas = 8, Priority = 0\<rparr>])) = 0
   \<and> CronMinReplicas (defaultSet (NewCronMetricsScaler ''cron'' (100 * Second)
       [\<lparr>Schedule = ''* * * * *'', CronMinReplicas = Some 6, CronMaxReplicas = 8, Priority = 0\<rparr>])) = None
   \<and> GetCurrentMaxAndMinReplicas exampleLib (100 * Second) (NewCronMetricsScaler ''cron'' (100 * Second)
       [\<lparr>Schedule = ''* * * * *'', CronMinReplicas = Some 6, CronMaxReplicas = 8, Priority = 0\<rparr>])
       = Returns (2, 4, ''default empty'')"
proof -
  have h1: "CronMaxReplicas (defaultSet (NewCronMetricsScaler ''cron'' (100 * Second)
       [\<lparr>Schedule = ''* * * * *'', CronMinReplicas = Some 6, CronMaxReplicas = 8, Priority = 0\<rparr>])) = 0"
    by (simp add: NewCronMetricsScaler_def emptyCronMetricSpec_def)
  have h2: "CronMinReplicas (defaultSet (NewCronMetricsScaler ''cron'' (100 * Second)
       [\<lparr>Schedule = ''* * * * *'', CronMinReplicas = Some 6, CronMaxReplicas = 8, Priority = 0\<rparr>])) = None"
    by (simp add: NewCronMetricsScaler_def emptyCronMetricSpec_def)
  from default_absent_bounds[OF h1 h2, of exampleLib "100 * Second"] h1 h2
  show ?thesis by auto
qed

section \<open>The legacy stabilizer\<close>

lemma Max_insert_max:
  "finite A \<Longrightarrow> Max (insert (max a b) A) = Max (insert (a::int) (insert b A))"
  by (cases "A = {}") (simp_all add: max.assoc)

lemma stabilizeScan_max:
  "fst (stabilizeScan cutoff xs i (m, f, idx)) =
     Max (insert m (recommendation ` {r \<in> set xs. \<not> timestamp r < cutoff}))"
proof (induction xs arbitrary: i m f idx)
  case Nil
  show ?case by simp
next
  case (Cons r rs)
  show ?case
  proof (cases "timestamp r < cutoff")
    case True
    then have "{x \<in> set (r # rs). \<not> timestamp x < cutoff} = {x \<in> set rs. \<not> timestamp x < cutoff}"
      by auto
    with True Cons.IH[of "Suc i" m True i] show ?thesis by simp
  next
    case False
    then have S: "{x \<in> set (r # rs). \<not> timestamp x < cutoff}
        = insert r {x \<in> set rs. \<not> timestamp x < cutoff}"
      by auto
    have fin: "finite (recommendation ` {x \<in> set rs. \<not> timestamp x < cutoff})" by simp
    have "Max (insert (max m (recommendation r)) (recommendation ` {x \<in> set rs. \<not> timestamp x < cutoff}))
        = Max (insert m (insert (recommendation r) (recommendation ` {x \<in> set rs. \<not> timestamp x < cutoff})))"
      using fin by (rule Max_insert_max)
    moreover have "(if recommendation r > m then recommendation r else m) = max m (recommendation r)"
      by simp
    ultimately show ?thesis
      using False Cons.IH[of "Suc i" "max m (recommendation r)" f idx] S
      by (cases "recommendation r > m") (simp_all add: max_def)
  qed
qed

lemma stabilizeScan_found:
  "fst (snd (stabilizeScan cutoff xs i (m, f, idx))) = (f \<or> (\<exists>r \<in> set xs. timestamp r < cutoff))"
  by (induction xs arbitrary: i m f idx) auto

lemma stabilizeScan_index_none:
  "\<forall>r \<in> set xs. \<not> timestamp r < cutoff \<Longrightarrow>
     snd (snd (stabilizeScan cutoff xs i (m, f, idx))) = idx"
  by (induction xs arbitrary: i m f idx) auto

lemma stabilizeScan_index_last:
  "\<exists>r \<in> set xs. timestamp r < cutoff \<Longrightarrow>
     (\<exists>k < length xs. snd (snd (stabilizeScan cutoff xs i (m, f, idx))) = i + k
        \<and> timestamp (xs ! k) < cutoff
        \<and> (\<forall>j. k < j \<and> j < length xs \<longrightarrow> \<not> timestamp (xs ! j) < cutoff))"
proof (induction xs arbitrary: i m f idx)
  case Nil
  then show ?case by simp
next
  case (Cons r rs)
  define st where "st = (if timestamp r < cutoff then (m, True, i)
        else if recommendation r > m then (recommendation r, f, idx)
        else (m, f, idx))"
  obtain m1 f1 idx1 where st1: "st = (m1, f1, idx1)" by (cases st) auto
  have step: "stabilizeScan cutoff (r # rs) i (m, f, idx) = stabilizeScan cutoff rs (Suc i) (m1, f1, idx1)"
    using st1 by (simp add: st_def)
  show ?case
  proof (cases "\<exists>x \<in> set rs. timestamp x < cutoff")
    case True
    from Cons.IH[OF True, of "Suc i" m1 f1 idx1]
    obtain k where k: "k < length rs"
      "snd (snd (stabilizeScan cutoff rs (Suc i) (m1, f1, idx1))) = Suc i + k"
      "timestamp (rs ! k) < cutoff"
      "\<forall>j. k < j \<and> j < length rs \<longrightarrow> \<not> timestamp (rs ! j) < cutoff"
      by blast
    have "\<forall>j. Suc k < j \<and> j < length (r # rs) \<longrightarrow> \<not> timestamp ((r # rs) ! j) < cutoff"
    proof (intro allI impI)
      fix j assume "Suc k < j \<and> j < length (r # rs)"
      then obtain j' where "j = Suc j'" "k < j'" "j' < length rs" by (cases j) auto
      with k(4) show "\<not> timestamp ((r # rs) ! j) < cutoff" by simp
    qed
    with k show ?thesis
      unfolding step by (intro exI[of _ "Suc k"]) simp
  next
    case False
    with Cons.prems have old: "timestamp r < cutoff" by auto
    then have "st = (m, True, i)" by (simp add: st_def)
    with st1 have "idx1 = i" by simp
    moreover from False have "snd (snd (stabilizeScan cutoff rs (Suc i) (m1, f1, idx1))) = idx1"
      by (intro stabilizeScan_index_none) simp
    moreover have "\<forall>j. 0 < j \<and> j < length (r # rs) \<longrightarrow> \<not> timestamp ((r # rs) ! j) < cutoff"
    proof (intro allI impI)
      fix j assume "0 < j \<and> j < length (r # rs)"
      then obtain j' where "j = Suc j'" "j' < length rs" by (cases j) auto
      with False show "\<not> timestamp ((r # rs) ! j) < cutoff" by (auto simp: nth_mem)
    qed
    ultimately show ?thesis
      unfolding step using old by (intro exI[of _ 0]) simp
  qed
qed

text \<open>
  C5, as amended. \<open>stabilizeRecommendation\<close> returns the maximum of \<open>preDesired\<close> and
  of every recommendation of the key's window that is not older than
  \<open>now - downscaleStabilisationWindow\<close> (a sample at the cutoff counts). It leaves the
  windows of the other keys alone. When a sample of the window is older than the cutoff,
  the last such sample in the order of the window is replaced in place by
  \<open>(preDesired, now)\<close>; when none is, \<open>(preDesired, now)\<close> is appended.
\<close>

theorem stabilizeRecommendation_max_and_last_old:
  "fst (stabilizeRecommendation w now rs key pre) =
      Max (insert pre (recommendation ` {r \<in> set (window rs key). \<not> timestamp r < now - w}))
   \<and> (\<forall>k. k \<noteq> key \<longrightarrow> snd (stabilizeRecommendation w now rs key pre) k = rs k)
   \<and> ((\<exists>i < length (window rs key).
          timestamp (window rs key ! i) < now - w
          \<and> (\<forall>j. i < j \<and> j < length (window rs key) \<longrightarrow> \<not> timestamp (window rs key ! j) < now - w)
          \<and> snd (stabilizeRecommendation w now rs key pre) key =
              Some ((window rs key)[i := \<lparr>recommendation = pre, timestamp = now\<rparr>]))
       \<or> ((\<forall>r \<in> set (window rs key). \<not> timestamp r < now - w)
          \<and> snd (stabilizeRecommendation w now rs key pre) key =
              Some (window rs key @ [\<lparr>recommendation = pre, timestamp = now\<rparr>])))"
proof -
  define xs where "xs = window rs key"
  define sc where "sc = stabilizeScan (now - w) xs 0 (pre, False, 0)"
  have res: "stabilizeRecommendation w now rs key pre =
      (fst sc, rs(key \<mapsto> (if fst (snd sc) then xs[snd (snd sc) := \<lparr>recommendation = pre, timestamp = now\<rparr>]
                            else xs @ [\<lparr>recommendation = pre, timestamp = now\<rparr>])))"
    by (simp add: stabilizeRecommendation_def Let_def split_def xs_def sc_def)
  have m: "fst sc = Max (insert pre (recommendation ` {r \<in> set xs. \<not> timestamp r < now - w}))"
    unfolding sc_def by (rule stabilizeScan_max)
  have f: "fst (snd sc) = (\<exists>r \<in> set xs. timestamp r < now - w)"
    unfolding sc_def by (simp add: stabilizeScan_found)
  show ?thesis
  proof (cases "\<exists>r \<in> set xs. timestamp r < now - w")
    case True
    from stabilizeScan_index_last[OF True, of 0 pre False 0]
    obtain k where "k < length xs" "snd (snd sc) = k" "timestamp (xs ! k) < now - w"
      "\<forall>j. k < j \<and> j < length xs \<longrightarrow> \<not> timestamp (xs ! j) < now - w"
      unfolding sc_def by auto
    with True f m show ?thesis
      unfolding res xs_def[symmetric] by auto
  next
    case False
    with f m show ?thesis
      unfolding res xs_def[symmetric] by auto
  qed
qed

text \<open>
  The window \<open>[18@-30s, 12@-10s]\<close> with \<open>preDesired = 10\<close> and a window of 60 seconds:
  the stabilizer returns 18 and appends the new sample.
\<close>

theorem stabilizeRecommendation_max_and_last_old_witness:
  "fst (stabilizeRecommendation (60 * Second) (100 * Second)
     [''ns/web'' \<mapsto> [\<lparr>recommendation = 18, timestamp = 70 * Second\<rparr>,
                      \<lparr>recommendation = 12, timestamp = 90 * Second\<rparr>]] ''ns/web'' 10) = 18
   \<and> snd (stabilizeRecommendation (60 * Second) (100 * Second)
     [''ns/web'' \<mapsto> [\<lparr>recommendation = 18, timestamp = 70 * Second\<rparr>,
                      \<lparr>recommendation = 12, timestamp = 90 * Second\<rparr>]] ''ns/web'' 10) ''ns/web''
       = Some [\<lparr>recommendation = 18, timestamp = 70 * Second\<rparr>,
               \<lparr>recommendation = 12, timestamp = 90 * Second\<rparr>,
               \<lparr>recommendation = 10, timestamp = 100 * Second\<rparr>]"
  using stabilizeRecommendation_max_and_last_old[of "60 * Second" "100 * Second"
     "[''ns/web'' \<mapsto> [\<lparr>recommendation = 18, timestamp = 70 * Second\<rparr>,
                      \<lparr>recommendation = 12, timestamp = 90 * Second\<rparr>]]" "''ns/web''" 10]
  by (simp add: stabilizeRecommendation_def window_def Second_def)

text \<open>
  The claim as it is worded fails twice. With two samples out of the window,
  \<open>[5@900s, 7@910s]\<close> at \<open>now = 1000s\<close>, the code replaces the second one and keeps the
  oldest, where the specification's wording replaces the oldest. And a sample exactly
  at the cutoff, \<open>9@940s\<close>, is not newer than the cutoff but the code counts it.
\<close>

theorem stabilizeRecommendation_oldest_counterexample:
  "snd (stabilizeRecommendation (60 * Second) (1000 * Second)
     [''ns/web'' \<mapsto> [\<lparr>recommendation = 5, timestamp = 900 * Second\<rparr>,
                      \<lparr>recommendation = 7, timestamp = 910 * Second\<rparr>]] ''ns/web'' 3) ''ns/web''
     = Some [\<lparr>recommendation = 5, timestamp = 900 * Second\<rparr>,
             \<lparr>recommendation = 3, timestamp = 1000 * Second\<rparr>]
   \<and> snd (stabilizeRecommendationSpec (60 * Second) (1000 * Second)
     [''ns/web'' \<mapsto> [\<lparr>recommendation = 5, timestamp = 900 * Second\<rparr>,
                      \<lparr>recommendation = 7, timestamp = 910 * Second\<rparr>]] ''ns/web'' 3) ''ns/web''
     = Some [\<lparr>recommendation = 3, timestamp = 1000 * Second\<rparr>,
             \<lparr>recommendation = 7, timestamp = 910 * Second\<rparr>]
   \<and> fst (stabilizeRecommendation (60 * Second) (1000 * Second)
     [''ns/web'' \<mapsto> [\<lparr>recommendation = 9, timestamp = 940 * Second\<rparr>]] ''ns/web'' 3) = 9
   \<and> fst (stabilizeRecommendationSpec (60 * Second) (1000 * Second)
     [''ns/web'' \<mapsto> [\<lparr>recommendation = 9, timestamp = 940 * Second\<rparr>]] ''ns/web'' 3) = 3"
  by (simp add: stabilizeRecommendation_def stabilizeRecommendationSpec_def window_def Second_def)

section \<open>Scale-event bookkeeping\<close>











section \<open>The bounds of the cron mode\<close>

lemma newScaler_foldl:
  "foldl (\<lambda>(filter', def) cr.
            if Schedule cr \<noteq> ''default'' then (filter' @ [cr], def) else (filter', cr))
     (f, d) specs
   = (f @ filter (\<lambda>cr. Schedule cr \<noteq> ''default'') specs,
      if \<exists>cr \<in> set specs. Schedule cr = ''default''
      then last (filter (\<lambda>cr. Schedule cr = ''default'') specs) else d)"
proof (induction specs arbitrary: f d)
  case Nil
  show ?case by simp
next
  case (Cons cr specs)
  show ?case
  proof (cases "Schedule cr = ''default''")
    case True
    then show ?thesis using Cons.IH[of f cr] by (auto simp: filter_empty_conv)
  next
    case False
    then show ?thesis using Cons.IH[of "f @ [cr]" d] by auto
  qed
qed

lemma NewCronMetricsScaler_ranges:
  "ranges (NewCronMetricsScaler Cron wall specs) = filter (\<lambda>cr. Schedule cr \<noteq> ''default'') specs"
  by (simp add: NewCronMetricsScaler_def newScaler_foldl)

lemma NewCronMetricsScaler_defaultSet:
  "defaultSet (NewCronMetricsScaler Cron wall specs) =
     (if \<exists>cr \<in> set specs. Schedule cr = ''default''
      then last (filter (\<lambda>cr. Schedule cr = ''default'') specs) else emptyCronMetricSpec)"
  by (simp add: NewCronMetricsScaler_def newScaler_foldl)

lemma NewCronMetricsScaler_default_name:
  assumes "CronMinReplicas (defaultSet (NewCronMetricsScaler Cron wall specs)) = Some dmin"
  shows "Schedule (defaultSet (NewCronMetricsScaler Cron wall specs)) = ''default''"
proof (cases "\<exists>cr \<in> set specs. Schedule cr = ''default''")
  case True
  then have ne: "filter (\<lambda>cr. Schedule cr = ''default'') specs \<noteq> []"
    by (simp add: filter_empty_conv)
  from last_in_set[OF ne] have "Schedule (last (filter (\<lambda>cr. Schedule cr = ''default'') specs)) = ''default''"
    by simp
  with True show ?thesis by (simp add: NewCronMetricsScaler_defaultSet)
next
  case False
  with assms show ?thesis by (simp add: NewCronMetricsScaler_defaultSet emptyCronMetricSpec_def)
qed

lemma collectActive_filter:
  assumes "\<forall>cr \<in> set xs. Schedule cr \<noteq> ''default'' \<longrightarrow> scheduleChecked lib wall s cr"
  shows "collectActive lib wall s xs crs =
     Returns (Inr (crs @ filter (\<lambda>cr. Schedule cr \<noteq> ''default'' \<and> activeAt lib wall s cr) xs))"
  using assms
proof (induction xs arbitrary: crs)
  case Nil
  show ?case by simp
next
  case (Cons cr xs)
  show ?case
  proof (cases "Schedule cr = ''default''")
    case True
    with Cons show ?thesis by simp
  next
    case False
    with Cons.prems have "scheduleChecked lib wall s cr" by simp
    then obtain m where m: "getFinalMatchAndMisMatch lib wall s (Schedule cr) = Returns (Inr m)"
      by (auto simp: scheduleChecked_def split: outcome.splits sum.splits)
    show ?thesis
    proof (cases m)
      case None
      with m False Cons show ?thesis by (simp add: activeAt_def)
    next
      case (Some a)
      with m False Cons show ?thesis by (simp add: activeAt_def)
    qed
  qed
qed

lemma choosePriority_foldl:
  fixes crs :: "CronMetricSpec list"
  defines "step \<equiv> (\<lambda>(maxPriority, maxCr) cr.
              if Priority cr \<ge> maxPriority then (Priority cr, cr) else (maxPriority, maxCr))"
  shows "fst (foldl step (0, emptyCronMetricSpec) crs) = Max (insert 0 (Priority ` set crs))
     \<and> ((\<exists>x \<in> set crs. Priority x \<ge> 0) \<longrightarrow>
          snd (foldl step (0, emptyCronMetricSpec) crs)
            = last (filter (\<lambda>x. Priority x = Max (insert 0 (Priority ` set crs))) crs))
     \<and> (\<not> (\<exists>x \<in> set crs. Priority x \<ge> 0) \<longrightarrow>
          snd (foldl step (0, emptyCronMetricSpec) crs) = emptyCronMetricSpec)"
proof (induction crs rule: rev_induct)
  case Nil
  show ?case by simp
next
  case (snoc x xs)
  define p where "p = Max (insert 0 (Priority ` set xs))"
  obtain c where fc: "foldl step (0, emptyCronMetricSpec) xs = (p, c)"
    using snoc by (cases "foldl step (0, emptyCronMetricSpec) xs") (auto simp: p_def)
  have app: "foldl step (0, emptyCronMetricSpec) (xs @ [x]) = step (p, c) x"
    by (simp only: foldl_append foldl.simps fc)
  have p0: "0 \<le> p" by (simp add: p_def)
  have pmax: "\<forall>y \<in> set xs. Priority y \<le> p" by (simp add: p_def)
  have fin: "finite (Priority ` set xs)" by simp
  have M: "Max (insert 0 (Priority ` set (xs @ [x]))) = max (Priority x) p"
    using fin unfolding p_def by (cases "Priority ` set xs = {}") (simp_all add: max.left_commute max.commute)
  show ?case
  proof (cases "Priority x \<ge> p")
    case True
    then have st: "foldl step (0, emptyCronMetricSpec) (xs @ [x]) = (Priority x, x)"
      unfolding app by (simp add: step_def)
    from True have M': "Max (insert 0 (Priority ` set (xs @ [x]))) = Priority x"
      using M by simp
    from True p0 have "\<exists>y \<in> set (xs @ [x]). Priority y \<ge> 0" by auto
    then show ?thesis unfolding st M' by simp
  next
    case False
    then have st: "foldl step (0, emptyCronMetricSpec) (xs @ [x]) = (p, c)"
      unfolding app by (simp add: step_def)
    from False have M': "Max (insert 0 (Priority ` set (xs @ [x]))) = p"
      using M by simp
    from False have nx: "Priority x \<noteq> p" by simp
    show ?thesis
    proof (cases "\<exists>y \<in> set xs. Priority y \<ge> 0")
      case True
      with snoc fc have "c = last (filter (\<lambda>y. Priority y = p) xs)" by (simp add: p_def)
      with True nx show ?thesis unfolding st M' by auto
    next
      case F2: False
      then have "p = 0" unfolding p_def
        by (intro Max_eqI) (auto simp: less_imp_le not_le)
      with False have "\<not> Priority x \<ge> 0" by simp
      with F2 snoc fc show ?thesis unfolding st M' by auto
    qed
  qed
qed

lemma choosePriority_best:
  assumes "crs \<noteq> []" and "0 \<le> Max (Priority ` set crs)"
  shows "snd (choosePriority crs) = last (filter (\<lambda>x. Priority x = Max (Priority ` set crs)) crs)"
proof -
  from assms(1) have ne: "Priority ` set crs \<noteq> {}" by simp
  have fin: "finite (Priority ` set crs)" by simp
  from assms(2) have M: "Max (insert 0 (Priority ` set crs)) = Max (Priority ` set crs)"
    using ne fin by simp
  from Max_in[OF fin ne] obtain x where "x \<in> set crs" "Priority x = Max (Priority ` set crs)"
    by auto
  with assms(2) have "\<exists>x \<in> set crs. Priority x \<ge> 0" by (intro bexI[of _ x]) simp_all
  with choosePriority_foldl[of crs] M show ?thesis
    by (simp add: choosePriority_def)
qed

lemma yearOf_2023: "yearOf 1696190401000000000 = 2023"
  by code_simp

lemma yearOf_1970: "yearOf 3601000000000 = 1970"
  by code_simp

lemma example_check_first:
  "scalerNow s = Hour + Second \<Longrightarrow>
   getFinalMatchAndMisMatch exampleLib (Hour + Second) s ''*/30 * * * *''
     = Returns (Inr (Some (Hour, Hour + 30 * Minute)))"
  by (simp add: getFinalMatchAndMisMatch_def ParseStandardWithYear_def exampleLib_def
      getYesterdayFirstTime_def
      walkSchedule.simps everyHalfHour_def minuteOf_def Hour_def Minute_def Second_def)

lemma example_check_second:
  "scalerNow s = Hour + Second \<Longrightarrow>
   getFinalMatchAndMisMatch exampleLib (Hour + Second) s ''*/30 * * * * 1970''
     = Returns (Inr (Some (Hour, Hour + 30 * Minute)))"
  by (simp add: getFinalMatchAndMisMatch_def ParseStandardWithYear_def exampleLib_def exampleAtoi_def
      getYesterdayFirstTime_def yearOf_1970
      walkSchedule.simps everyHalfHour_def minuteOf_def Hour_def Minute_def Second_def)

lemma example_check_unparseable:
  "getFinalMatchAndMisMatch exampleLib (Hour + Second) s ''every day'' = Returns (Inl ''invalid schedule'')"
  by (simp add: getFinalMatchAndMisMatch_def ParseStandardWithYear_def exampleLib_def)

lemma exampleScaler_now: "scalerNow (exampleScaler specs) = Hour + Second"
  by (simp add: exampleScaler_def NewCronMetricsScaler_def split_def Let_def)

text \<open>
  C2, as amended. Let the scaler be made of a list of entries whose last \<open>default\<close>
  entry has its \<open>MinReplicas\<close> set, and let the active-window test of every other
  entry return without an error. The default of the scaler is that last \<open>default\<close>
  entry. When no other entry is active, \<open>GetCurrentMaxAndMinReplicas\<close> returns the
  bounds of the default and the name \<open>default\<close>. When some are active, and the
  greatest priority among them is not negative, and the last active entry of that
  priority has its \<open>MinReplicas\<close> set, it returns the bounds and the schedule of
  that entry.
\<close>

theorem GetCurrentMaxAndMinReplicas_greatest_priority:
  assumes s: "s = NewCronMetricsScaler Cron now specs"
    and dex: "filter (\<lambda>cr. Schedule cr = ''default'') specs \<noteq> []"
    and dlast: "CronMinReplicas (last (filter (\<lambda>cr. Schedule cr = ''default'') specs)) = Some defaultMin"
    and chk: "\<forall>cr \<in> set specs. Schedule cr \<noteq> ''default'' \<longrightarrow> scheduleChecked lib wall s cr"
    and act: "act = filter (\<lambda>cr. Schedule cr \<noteq> ''default'' \<and> activeAt lib wall s cr) specs"
    and best: "best = last (filter (\<lambda>cr. Priority cr = Max (Priority ` set act)) act)"
  shows "defaultSet s = last (filter (\<lambda>cr. Schedule cr = ''default'') specs)
     \<and> (act = [] \<longrightarrow>
          GetCurrentMaxAndMinReplicas lib wall s
            = Returns (CronMaxReplicas (defaultSet s), defaultMin, ''default''))
     \<and> (\<forall>bestMin. act \<noteq> [] \<and> 0 \<le> Priority best \<and> CronMinReplicas best = Some bestMin \<longrightarrow>
          GetCurrentMaxAndMinReplicas lib wall s
            = Returns (CronMaxReplicas best, bestMin, Schedule best))"
proof -
  from dex have "\<exists>cr \<in> set specs. Schedule cr = ''default''"
    by (simp add: filter_empty_conv)
  then have def: "defaultSet s = last (filter (\<lambda>cr. Schedule cr = ''default'') specs)"
    unfolding s by (simp add: NewCronMetricsScaler_defaultSet)
  with dlast have dflt: "CronMinReplicas (defaultSet s) = Some defaultMin" by simp
  have name: "Schedule (defaultSet s) = ''default''"
    using dflt unfolding s by (rule NewCronMetricsScaler_default_name)
  have rs: "ranges s = filter (\<lambda>cr. Schedule cr \<noteq> ''default'') specs"
    unfolding s by (rule NewCronMetricsScaler_ranges)
  from chk have "\<forall>cr \<in> set (ranges s). Schedule cr \<noteq> ''default'' \<longrightarrow> scheduleChecked lib wall s cr"
    by (simp add: rs)
  from collectActive_filter[OF this, of "[]"]
  have col: "collectActive lib wall s (ranges s) [] = Returns (Inr act)"
    by (simp add: rs act conj_commute cong: conj_cong)
  have G: "GetCurrentMaxAndMinReplicas lib wall s =
      (if act = [] then Returns (CronMaxReplicas (defaultSet s), defaultMin, ''default'')
       else case CronMinReplicas (snd (choosePriority act)) of
              None \<Rightarrow> Panics
            | Some m \<Rightarrow> Returns (CronMaxReplicas (snd (choosePriority act)), m,
                                  Schedule (snd (choosePriority act))))"
    by (simp add: GetCurrentMaxAndMinReplicas_def dflt col name Let_def split_def)
  have third: "GetCurrentMaxAndMinReplicas lib wall s
            = Returns (CronMaxReplicas best, bestMin, Schedule best)"
    if h: "act \<noteq> []" "0 \<le> Priority best" "CronMinReplicas best = Some bestMin" for bestMin
  proof -
    have fin: "finite (Priority ` set act)" by simp
    from h(1) have ne: "Priority ` set act \<noteq> {}" by simp
    from Max_in[OF fin ne] obtain x where "x \<in> set act" "Priority x = Max (Priority ` set act)"
      by auto
    then have "filter (\<lambda>cr. Priority cr = Max (Priority ` set act)) act \<noteq> []"
      by (auto simp: filter_empty_conv)
    from last_in_set[OF this] have "Priority best = Max (Priority ` set act)"
      by (simp add: best)
    with h(2) have "0 \<le> Max (Priority ` set act)" by simp
    from choosePriority_best[OF h(1) this] have "snd (choosePriority act) = best"
      by (simp add: best)
    with h show ?thesis by (simp add: G)
  qed
  from def G third show ?thesis by auto
qed

text \<open>
  Two entries of priority 5, both active at 01:00:01 on January 1, 1970: the later one
  gives the bounds.
\<close>

theorem GetCurrentMaxAndMinReplicas_greatest_priority_witness:
  "exampleScaler [exampleFirst, exampleSecond, exampleDefault]
     = NewCronMetricsScaler ''cron'' (Hour + Second) [exampleFirst, exampleSecond, exampleDefault]
   \<and> filter (\<lambda>cr. Schedule cr = ''default'') [exampleFirst, exampleSecond, exampleDefault] \<noteq> []
   \<and> CronMinReplicas (last (filter (\<lambda>cr. Schedule cr = ''default'')
                               [exampleFirst, exampleSecond, exampleDefault])) = Some 9
   \<and> scheduleChecked exampleLib (Hour + Second)
        (exampleScaler [exampleFirst, exampleSecond, exampleDefault]) exampleFirst
   \<and> scheduleChecked exampleLib (Hour + Second)
        (exampleScaler [exampleFirst, exampleSecond, exampleDefault]) exampleSecond
   \<and> filter (\<lambda>cr. Schedule cr \<noteq> ''default''
              \<and> activeAt exampleLib (Hour + Second)
                    (exampleScaler [exampleFirst, exampleSecond, exampleDefault]) cr)
        [exampleFirst, exampleSecond, exampleDefault] = [exampleFirst, exampleSecond]
   \<and> Priority exampleFirst = Priority exampleSecond
   \<and> GetCurrentMaxAndMinReplicas exampleLib (Hour + Second)
        (exampleScaler [exampleFirst, exampleSecond, exampleDefault])
        = Returns (3, 1, ''*/30 * * * * 1970'')"
proof -
  let ?s = "exampleScaler [exampleFirst, exampleSecond, exampleDefault]"
  have h1: "?s = NewCronMetricsScaler ''cron'' (Hour + Second) [exampleFirst, exampleSecond, exampleDefault]"
    by (simp add: exampleScaler_def)
  have h2: "filter (\<lambda>cr. Schedule cr = ''default'') [exampleFirst, exampleSecond, exampleDefault] \<noteq> []"
    and h2': "CronMinReplicas (last (filter (\<lambda>cr. Schedule cr = ''default'')
                               [exampleFirst, exampleSecond, exampleDefault])) = Some 9"
    by (simp_all add: exampleFirst_def exampleSecond_def exampleDefault_def)
  have sA: "Schedule exampleFirst = ''*/30 * * * *''"
    and sB: "Schedule exampleSecond = ''*/30 * * * * 1970''"
    and sD: "Schedule exampleDefault = ''default''"
    and pr: "Priority exampleFirst = 5" "Priority exampleSecond = 5"
    and bB: "CronMinReplicas exampleSecond = Some 1" "CronMaxReplicas exampleSecond = 3"
    by (simp_all add: exampleFirst_def exampleSecond_def exampleDefault_def)
  have cA: "scheduleChecked exampleLib (Hour + Second) ?s exampleFirst"
    and aA: "activeAt exampleLib (Hour + Second) ?s exampleFirst"
    using example_check_first[OF exampleScaler_now]
    by (simp_all add: scheduleChecked_def activeAt_def sA)
  have cB: "scheduleChecked exampleLib (Hour + Second) ?s exampleSecond"
    and aB: "activeAt exampleLib (Hour + Second) ?s exampleSecond"
    using example_check_second[OF exampleScaler_now]
    by (simp_all add: scheduleChecked_def activeAt_def sB)
  have h3: "\<forall>cr \<in> set [exampleFirst, exampleSecond, exampleDefault]. Schedule cr \<noteq> ''default'' \<longrightarrow>
              scheduleChecked exampleLib (Hour + Second) ?s cr"
    by (simp add: cA cB sD)
  have h4: "[exampleFirst, exampleSecond] = filter (\<lambda>cr. Schedule cr \<noteq> ''default''
              \<and> activeAt exampleLib (Hour + Second) ?s cr) [exampleFirst, exampleSecond, exampleDefault]"
    by (simp add: aA aB sA sB sD)
  have h5: "exampleSecond = last (filter (\<lambda>cr. Priority cr = Max (Priority ` set [exampleFirst, exampleSecond]))
                [exampleFirst, exampleSecond])"
    by (simp add: pr)
  from GetCurrentMaxAndMinReplicas_greatest_priority[OF h1 h2 h2' h3 h4 h5] h1 h2 h2' cA cB
    h4[symmetric] pr bB sB
  show ?thesis by simp
qed

text \<open>
  The claim as it is worded fails when an entry does not parse: the first entry is
  active, and the bounds returned are those of the default.
\<close>

theorem unparseable_schedule_counterexample:
  "activeAt exampleLib (Hour + Second)
     (exampleScaler [exampleFirst, exampleUnparseable, exampleDefault]) exampleFirst
   \<and> GetCurrentMaxAndMinReplicas exampleLib (Hour + Second)
        (exampleScaler [exampleFirst, exampleUnparseable, exampleDefault])
     = Returns (10, 9, ''default'')"
proof -
  let ?s = "exampleScaler [exampleFirst, exampleUnparseable, exampleDefault]"
  have sA: "Schedule exampleFirst = ''*/30 * * * *''"
    and sU: "Schedule exampleUnparseable = ''every day''"
    by (simp_all add: exampleFirst_def exampleUnparseable_def)
  have aA: "activeAt exampleLib (Hour + Second) ?s exampleFirst"
    using example_check_first[OF exampleScaler_now] by (simp add: activeAt_def sA)
  have rs: "ranges ?s = [exampleFirst, exampleUnparseable]"
    and ds: "defaultSet ?s = exampleDefault"
    by (simp_all add: exampleScaler_def NewCronMetricsScaler_def exampleFirst_def
        exampleUnparseable_def exampleDefault_def)
  have "collectActive exampleLib (Hour + Second) ?s (ranges ?s) [] = Returns (Inl ''invalid schedule'')"
    unfolding rs
    by (simp add: sA sU example_check_first[OF exampleScaler_now] example_check_unparseable)
  moreover have "CronMaxReplicas exampleDefault = 10" "CronMinReplicas exampleDefault = Some 9"
    "Schedule exampleDefault = ''default''"
    by (simp_all add: exampleDefault_def)
  ultimately have "GetCurrentMaxAndMinReplicas exampleLib (Hour + Second) ?s = Returns (10, 9, ''default'')"
    by (simp add: GetCurrentMaxAndMinReplicas_def ds)
  with aA show ?thesis by simp
qed

section \<open>The rate limits of a behavior\<close>

text \<open>
  Under \<open>Min\<close> the accumulator of the scale-up loop starts at 0 and only takes minima,
  and that of the scale-down loop starts at \<open>MaxInt32\<close> and only takes maxima.
\<close>

lemma scaleUpStep_min_le:
  "fst (foldl (scaleUpStep ops now c ev min) st ps) \<le> fst st"
proof (induction ps arbitrary: st)
  case Nil
  show ?case by simp
next
  case (Cons p ps)
  have "fst (scaleUpStep ops now c ev min st p) \<le> fst st"
    by (simp add: scaleUpStep_def Let_def)
  with Cons[of "scaleUpStep ops now c ev min st p"] show ?case by simp
qed

lemma scaleDownStep_max_ge:
  "fst st \<le> fst (foldl (scaleDownStep ops now c ev max) st ps)"
proof (induction ps arbitrary: st)
  case Nil
  show ?case by simp
next
  case (Cons p ps)
  have "fst st \<le> fst (scaleDownStep ops now c ev max st p)"
    by (simp add: scaleDownStep_def Let_def)
  with Cons[of "scaleDownStep ops now c ev max st p"] show ?case by simp
qed

lemma scaleUp_min_at_most_zero:
  assumes "SelectPolicy rules = Some MinPolicySelect"
  shows "\<exists>r. calculateScaleUpLimitWithScalingRules ops now c ev rules = Returns r \<and> r \<le> 0"
  using assms scaleUpStep_min_le[of ops now c ev "(0, 0)" "Policies rules"]
  by (simp add: calculateScaleUpLimitWithScalingRules_def)

lemma scaleDown_min_at_least_MaxInt32:
  assumes "SelectPolicy rules = Some MinPolicySelect"
  shows "\<exists>r. calculateScaleDownLimitWithBehaviors ops now c ev rules = Returns r \<and> MaxInt32 \<le> r"
  using assms scaleDownStep_max_ge[of "(MaxInt32, 0)" ops now c ev "Policies rules"]
  by (simp add: calculateScaleDownLimitWithBehaviors_def)

lemma scaleUp_max_foldl:
  assumes "\<forall>p \<in> set ps. PolicyType p = PodsScalingPolicy \<or> PolicyType p = PercentScalingPolicy"
  shows "fst (foldl (scaleUpStep ops now c ev max) (a, b) ps)
           = Max (insert a (set (scaleUpProposals ops now c ev ps)))"
  using assms
proof (induction ps arbitrary: a b)
  case Nil
  show ?case by (simp add: scaleUpProposals_def map_filter_simps)
next
  case (Cons p ps)
  obtain q where q: "scaleUpProposals ops now c ev (p # ps) = q # scaleUpProposals ops now c ev ps"
    and st: "scaleUpStep ops now c ev max (a, b) p = (max a q, q)"
    using Cons.prems
    by (auto simp: scaleUpProposals_def map_filter_simps scaleUpStep_def Let_def)
  have "Max (insert (max a q) (set (scaleUpProposals ops now c ev ps)))
      = Max (insert a (insert q (set (scaleUpProposals ops now c ev ps))))"
    by (cases "set (scaleUpProposals ops now c ev ps) = {}") (simp_all add: max.assoc)
  with Cons.IH[of "max a q" q] Cons.prems show ?case
    by (simp add: q st del: Max_insert)
qed

lemma scaleDown_max_foldl:
  assumes "\<forall>p \<in> set ps. PolicyType p = PodsScalingPolicy \<or> PolicyType p = PercentScalingPolicy"
  shows "fst (foldl (scaleDownStep ops now c ev min) (a, b) ps)
           = Min (insert a (set (scaleDownProposals ops now c ev ps)))"
  using assms
proof (induction ps arbitrary: a b)
  case Nil
  show ?case by (simp add: scaleDownProposals_def map_filter_simps)
next
  case (Cons p ps)
  obtain q where q: "scaleDownProposals ops now c ev (p # ps) = q # scaleDownProposals ops now c ev ps"
    and st: "scaleDownStep ops now c ev min (a, b) p = (min a q, q)"
    using Cons.prems
    by (auto simp: scaleDownProposals_def map_filter_simps scaleDownStep_def Let_def)
  have "Min (insert (min a q) (set (scaleDownProposals ops now c ev ps)))
      = Min (insert a (insert q (set (scaleDownProposals ops now c ev ps))))"
    by (cases "set (scaleDownProposals ops now c ev ps) = {}") (simp_all add: min.assoc)
  with Cons.IH[of "min a q" q] Cons.prems show ?case
    by (simp add: q st del: Min_insert)
qed

lemma scaleUp_max_select:
  assumes "SelectPolicy rules = Some MaxPolicySelect"
    and "\<forall>p \<in> set (Policies rules). PolicyType p = PodsScalingPolicy \<or> PolicyType p = PercentScalingPolicy"
  shows "calculateScaleUpLimitWithScalingRules ops now c ev rules
           = Returns (Max (insert 0 (set (scaleUpProposals ops now c ev (Policies rules)))))"
  using assms(1) scaleUp_max_foldl[OF assms(2), of ops now c ev 0 0]
  by (simp add: calculateScaleUpLimitWithScalingRules_def del: Max_insert)

lemma scaleDown_max_select:
  assumes "SelectPolicy rules = Some MaxPolicySelect"
    and "\<forall>p \<in> set (Policies rules). PolicyType p = PodsScalingPolicy \<or> PolicyType p = PercentScalingPolicy"
  shows "calculateScaleDownLimitWithBehaviors ops now c ev rules
           = Returns (Min (insert MaxInt32 (set (scaleDownProposals ops now c ev (Policies rules)))))"
  using assms(1) scaleDown_max_foldl[OF assms(2), of ops now c ev MaxInt32 0]
  by (simp add: calculateScaleDownLimitWithBehaviors_def del: Min_insert)

text \<open>
  C4. With the policies \<open>4 pods per 60s\<close> and \<open>2 pods per 60s\<close>, 10 replicas and no
  scale event, the policies allow 14 and 12 replicas on the way up and 6 and 8 on the
  way down. Under \<open>Min\<close> the least permissive limit is 12 for scale-up and 8 for
  scale-down; the code returns 0 and \<open>MaxInt32\<close>, the initial values of its
  accumulator, so that the rate normalizer holds the target at 10 replicas in both
  directions.
\<close>

theorem selectPolicy_min_ignores_policies:
  "calculateScaleUpLimitWithScalingRules exampleOps (100 * Second) 10 [] (exampleRules MinPolicySelect)
     = Returns 0
   \<and> scaleUpLimitSpec exampleOps (100 * Second) 10 [] (exampleRules MinPolicySelect) = 12
   \<and> calculateScaleDownLimitWithBehaviors exampleOps (100 * Second) 10 [] (exampleRules MinPolicySelect)
     = Returns 2147483647
   \<and> scaleDownLimitSpec exampleOps (100 * Second) 10 [] (exampleRules MinPolicySelect) = 8
   \<and> (\<exists>reason message.
         convertDesiredReplicasWithBehaviorRate exampleOps (100 * Second) Map.empty Map.empty
           \<lparr>Key = ''ns/web'', ScaleUpBehavior = Some (exampleRules MinPolicySelect),
            ScaleDownBehavior = Some (exampleRules MinPolicySelect),
            MinReplicas = 1, MaxReplicas = 30, CurrentReplicas = 10, DesiredReplicas = 11\<rparr>
           = Returns (10, reason, message))
   \<and> (\<exists>reason message.
         convertDesiredReplicasWithBehaviorRate exampleOps (100 * Second) Map.empty Map.empty
           \<lparr>Key = ''ns/web'', ScaleUpBehavior = Some (exampleRules MinPolicySelect),
            ScaleDownBehavior = Some (exampleRules MinPolicySelect),
            MinReplicas = 1, MaxReplicas = 30, CurrentReplicas = 10, DesiredReplicas = 9\<rparr>
           = Returns (10, reason, message))"
  by (simp add: convertDesiredReplicasWithBehaviorRate_def window_def
      calculateScaleUpLimitWithScalingRules_def calculateScaleDownLimitWithBehaviors_def
      scaleUpLimitSpec_def scaleDownLimitSpec_def scaleUpProposals_def scaleDownProposals_def
      map_filter_simps
      scaleUpStep_def scaleDownStep_def getReplicasChangePerPeriod_def exampleRules_def
      podsPolicy_def wrap32_def MaxInt32_def Let_def)

section \<open>The active window of a schedule\<close>

text \<open>
  The walk ends with \<open>misMatch \<le> now < match\<close> when it starts at or before \<open>now\<close>,
  and, when the wall clock reads \<open>now\<close> and a year field is not 0, the test of the code
  is the test of the specification.
\<close>

lemma walkSchedule_brackets:
  assumes "walkSchedule sched now' misMatch t = Some y"
  shows "misMatch \<le> now' \<longrightarrow> fst y \<le> now' \<and> now' < snd y"
  by (rule walkSchedule.raw_induct[where P = "\<lambda>s n m t y. m \<le> n \<longrightarrow> fst y \<le> n \<and> n < snd y", OF _ assms])
    (auto split: if_splits)

lemma ParseStandardWithYear_five_fields:
  assumes "ParseStandardWithYear lib schedule = Inr (year, sched)"
    and "\<not> length (Split schedule CHR '' '') > 5"
  shows "year = 0"
  using assms by (auto simp: ParseStandardWithYear_def Let_def split: sum.splits)

lemma getYesterdayFirstTime_le: "getYesterdayFirstTime now \<le> now"
proof -
  have "0 < Hour" by (simp add: Hour_def Minute_def Second_def)
  then have "0 \<le> (now - Hour) mod Hour" by simp
  with \<open>0 < Hour\<close> have "(now - Hour) - (now - Hour) mod Hour \<le> now" by linarith
  then show ?thesis by (simp only: getYesterdayFirstTime_def Let_def)
qed

lemma activeWindowSpec_start:
  "activeWindowSpec lib now schedule =
     (case ParseStandardWithYear lib schedule of
        Inl err \<Rightarrow> None
      | Inr (year, sched) \<Rightarrow>
          (case walkSchedule sched now (getYesterdayFirstTime now) (getYesterdayFirstTime now) of
             None \<Rightarrow> None
           | Some (misMatch, match) \<Rightarrow>
               Some ((length (Split schedule CHR '' '') \<le> 5 \<or> yearOf now = year)
                     \<and> now - misMatch \<le> Minute
                     \<and> (match - now \<le> Minute \<or> minuteOf misMatch = minuteOf now))))"
  unfolding activeWindowSpec_def getYesterdayFirstTime_def Let_def ..

lemma getFinalMatchAndMisMatch_agrees_when_wall_is_now:
  assumes parse: "ParseStandardWithYear lib schedule = Inr (year, sched)"
    and yr: "length (Split schedule CHR '' '') > 5 \<longrightarrow> year \<noteq> 0"
    and spec: "activeWindowSpec lib (scalerNow s) schedule = Some active"
  shows "\<exists>r. getFinalMatchAndMisMatch lib (scalerNow s) s schedule = Returns (Inr r)
             \<and> (r \<noteq> None) = active"
proof -
  define start where "start = getYesterdayFirstTime (scalerNow s)"
  from spec parse obtain misMatch match where
    w: "walkSchedule sched (scalerNow s) start start = Some (misMatch, match)"
    by (auto simp: activeWindowSpec_start start_def split: option.splits)
  have "start \<le> scalerNow s" unfolding start_def by (rule getYesterdayFirstTime_le)
  with walkSchedule_brackets[OF w] have le: "misMatch \<le> scalerNow s" by simp
  have y0: "year = 0 \<longleftrightarrow> length (Split schedule CHR '' '') \<le> 5"
    using yr ParseStandardWithYear_five_fields[OF parse] by auto
  from spec have a: "active = ((length (Split schedule CHR '' '') \<le> 5 \<or> yearOf (scalerNow s) = year)
                        \<and> scalerNow s - misMatch \<le> Minute
                        \<and> (match - scalerNow s \<le> Minute \<or> minuteOf misMatch = minuteOf (scalerNow s)))"
    using w by (simp add: activeWindowSpec_start parse start_def)
  show ?thesis
  proof (cases "year \<noteq> 0 \<and> year \<noteq> yearOf (scalerNow s)")
    case True
    with a y0 show ?thesis by (auto simp: getFinalMatchAndMisMatch_def parse)
  next
    case False
    with y0 have g: "length (Split schedule CHR '' '') \<le> 5 \<or> yearOf (scalerNow s) = year" by auto
    from False have ny: "(year \<noteq> 0 \<and> year \<noteq> yearOf (scalerNow s)) = False" by simp
    have "getFinalMatchAndMisMatch lib (scalerNow s) s schedule =
        (if scalerNow s - misMatch \<le> Minute
                       \<and> (scalerNow s > misMatch \<or> scalerNow s = misMatch)
                       \<and> (match - scalerNow s \<le> Minute \<or> minuteOf misMatch = minuteOf (scalerNow s))
                    then Returns (Inr (Some (misMatch, match)))
                    else Returns (Inr None))"
      using w by (simp add: getFinalMatchAndMisMatch_def parse Let_def start_def ny)
    with a g le show ?thesis by auto
  qed
qed

text \<open>
  C3. A scaler whose \<open>now\<close> is 20:00:01 on October 1, 2023 and the schedule
  \<open>*/30 * * * * 2023\<close>, which fired at 20:00:00: the schedule is active at \<open>now\<close> in
  the specification's wording. The code starts its walk one hour before the reading
  of the wall clock, not before \<open>now\<close>: when the wall clock reads November 1, 2026 it
  reports the schedule inactive, and when it reads \<open>now\<close> it reports it active.
\<close>

theorem getFinalMatchAndMisMatch_walks_from_wall_clock:
  "getFinalMatchAndMisMatch exampleLib (1793491200 * Second)
     \<lparr>ranges = [], defaultSet = emptyCronMetricSpec, scalerName = ''cron'',
      scalerNow = 1696190401 * Second\<rparr> ''*/30 * * * * 2023''
     = Returns (Inr None)
   \<and> activeWindowSpec exampleLib (1696190401 * Second) ''*/30 * * * * 2023'' = Some True
   \<and> getFinalMatchAndMisMatch exampleLib (1696190401 * Second)
     \<lparr>ranges = [], defaultSet = emptyCronMetricSpec, scalerName = ''cron'',
      scalerNow = 1696190401 * Second\<rparr> ''*/30 * * * * 2023''
     = Returns (Inr (Some (1696190400 * Second, 1696192200 * Second)))"
  by (simp add: getFinalMatchAndMisMatch_def activeWindowSpec_def ParseStandardWithYear_def
      exampleLib_def exampleAtoi_def getYesterdayFirstTime_def yearOf_2023
      walkSchedule.simps everyHalfHour_def minuteOf_def Hour_def Minute_def Second_def)

section \<open>The reconcile of one autoscaler\<close>

text \<open>
  What the reconcile has done to the platform when it reaches \<open>if rescale\<close>: at most
  the patch of the labels, and events. And \<open>rescale\<close> holds exactly when the desired
  count differs from the current one.
\<close>

lemma effects_emit: "effects (emit es st) = effects st @ es"
  by (simp add: emit_def)

lemma effects_setCondition: "effects (setCondition now t s r m st) = effects st"
  by (simp add: setCondition_def)

lemma effects_setConditions: "effects (setConditions cs st) = effects st"
  by (simp add: setConditions_def)

lemma effects_recordInitialRecommendation:
  "effects (recordInitialRecommendation now c key st) = effects st"
  by (simp add: recordInitialRecommendation_def)

lemma cronBounds_effects:
  "cronBounds lib Cron now st = Returns (name, st') \<Longrightarrow> effects st' = effects st"
  by (auto simp: cronBounds_def split: option.splits outcome.splits)

lemma prepare_effects:
  assumes "prepare lib Cron env now key st = Returns (Inr (scale, scheduleName, st1))"
  shows "effects st1 = effects st \<or> effects st1 = effects st @ [GPAPatchLabels]"
proof -
  from assms obtain st0 where
    c: "cronBounds lib Cron now st0 = Returns (scheduleName, st1)"
    and e: "effects st0 = effects st \<or> effects st0 = effects st @ [GPAPatchLabels]"
    by (auto simp: prepare_def Let_def effects_emit effects_setCondition
        effects_recordInitialRecommendation
        split: sum.splits outcome.splits prod.splits if_splits)
  from cronBounds_effects[OF c] e show ?thesis by simp
qed

lemma normalizeDecision_rescale:
  assumes "normalizeDecision ovf ops w now key currentReplicas minReplicas r st
             = Returns (desired, rescale, statuses, st')"
  shows "rescale = (desired \<noteq> currentReplicas)
         \<and> (effects st' = effects st
            \<or> effects st' = effects st @ [RecordEvent ''Warning'' ''FailedRescale''])"
  using assms
  by (auto simp: normalizeDecision_def Let_def effects_emit effects_setConditions
      split: option.splits outcome.splits prod.splits if_splits)

lemma decide_rescale:
  assumes "decide ovf ops env w now key orig scale scheduleName minReplicas st
             = Returns (Inr (desired, rescale, statuses, st'))"
  shows "rescale = (desired \<noteq> ScaleSpecReplicas scale)
         \<and> (\<exists>es. effects st' = effects st @ es \<and> (\<forall>e \<in> set es. \<exists>t r. e = RecordEvent t r))"
proof (cases "(ScaleSpecReplicas scale = 0 \<and> minReplicas \<noteq> 0)
              \<or> ScaleSpecReplicas scale > SpecMaxReplicas (Spec (gpa st))
              \<or> ScaleSpecReplicas scale < minReplicas")
  case True
  with assms show ?thesis
    by (auto simp: decide_def Let_def effects_setCondition split: if_splits)
next
  case False
  define r where "r = computeByMode env scheduleName st"
  define st0 where "st0 = emit (map (\<lambda>(eventtype, reason). RecordEvent eventtype reason) (computeEvents r))
                       (setConditions (computeConditions r) st)"
  from False assms have n: "normalizeDecision ovf ops w now key (ScaleSpecReplicas scale) minReplicas r st0
             = Returns (desired, rescale, statuses, st')"
    by (auto simp: decide_def Let_def r_def st0_def split: if_splits option.splits outcome.splits)
  have e0: "effects st0 = effects st @ map (\<lambda>(eventtype, reason). RecordEvent eventtype reason) (computeEvents r)"
    by (simp add: st0_def effects_emit effects_setConditions)
  from normalizeDecision_rescale[OF n] e0 show ?thesis
    by auto
qed

text \<open>
  C7. Let the reconcile get the scale of the target, with a current replica count
  other than 0, and let the gates and the normalization leave a desired replica count
  of 0. Then \<open>reconcileAutoscaler\<close> returns an error. Up to that return it has patched
  the labels at most and recorded events, the last of which is the warning
  \<open>FailedRescale\<close>: it has not written the scale subresource, and it has not written
  the status.
\<close>

theorem zero_desired_refused:
  assumes p: "prepare lib Cron env now key st = Returns (Inr (scale, scheduleName, st1))"
    and d: "decide ovf ops env w now key (GPAStatus (gpa st)) scale scheduleName
              (effectiveMinReplicas st1) st1 = Returns (Inr (0, rescale, statuses, st2))"
    and ne: "ScaleSpecReplicas scale \<noteq> 0"
  shows "\<exists>e es. reconcileAutoscaler ovf ops lib Cron env w now key st
                   = Returns (Some e, st2\<lparr>effects := effects st @ es
                                                @ [RecordEvent ''Warning'' ''FailedRescale'']\<rparr>)
                 \<and> (\<forall>x \<in> set es. x = GPAPatchLabels \<or> (\<exists>t r. x = RecordEvent t r))"
proof -
  from decide_rescale[OF d] ne obtain es2 where r: "rescale"
    and e2: "effects st2 = effects st1 @ es2" "\<forall>x \<in> set es2. \<exists>t r. x = RecordEvent t r"
    by auto
  from prepare_effects[OF p] obtain es1 where
    e1: "effects st1 = effects st @ es1" "\<forall>x \<in> set es1. x = GPAPatchLabels"
    by auto
  have R: "reconcileAutoscaler ovf ops lib Cron env w now key st
          = Returns (Some ''failed to rescale: desiredReplicas=0 skip modify replcias'',
                     st2\<lparr>effects := effects st @ (es1 @ es2)
                                     @ [RecordEvent ''Warning'' ''FailedRescale'']\<rparr>)"
    by (simp add: reconcileAutoscaler_def Let_def p d rescalePhase_def r emit_def e1 e2)
  from e1 e2 have E: "\<forall>x \<in> set (es1 @ es2). x = GPAPatchLabels \<or> (\<exists>t r. x = RecordEvent t r)"
    by auto
  show ?thesis
    by (rule exI[of _ "''failed to rescale: desiredReplicas=0 skip modify replcias''"],
        rule exI[of _ "es1 @ es2"]) (use R E in simp)
qed

text \<open>
  A target of 3 replicas with the bounds 0 and 5, a proposal of 0 replicas, and one
  recommendation in the window that is older than the stabilisation window: the desired
  count is 0, and the reconcile refuses it.
\<close>

theorem zero_desired_refused_witness:
  "(\<exists>st1 st2.
      prepare exampleLib ''cron'' (examplePlatform 3 0) (1000 * Second) ''ns/web''
        (exampleState (exampleGPA (Some 0) 5 (Some [''cpu'']))
           [''ns/web'' \<mapsto> [\<lparr>recommendation = 3, timestamp = 100 * Second\<rparr>]])
        = Returns (Inr (\<lparr>ScaleSpecReplicas = 3, ScaleStatusReplicas = 3,
                          ScaleStatusSelector = ''app=web''\<rparr>, [], st1))
      \<and> decide (\<lambda>x. 0) exampleOps (examplePlatform 3 0) (300 * Second) (1000 * Second) ''ns/web''
          (GPAStatus (exampleGPA (Some 0) 5 (Some [''cpu''])))
          \<lparr>ScaleSpecReplicas = 3, ScaleStatusReplicas = 3, ScaleStatusSelector = ''app=web''\<rparr> []
          (effectiveMinReplicas st1) st1 = Returns (Inr (0, True, [], st2)))
   \<and> (3::int) \<noteq> 0
   \<and> (\<exists>e st'.
         reconcileAutoscaler (\<lambda>x. 0) exampleOps exampleLib ''cron'' (examplePlatform 3 0)
           (300 * Second) (1000 * Second) ''ns/web''
           (exampleState (exampleGPA (Some 0) 5 (Some [''cpu'']))
              [''ns/web'' \<mapsto> [\<lparr>recommendation = 3, timestamp = 100 * Second\<rparr>]])
           = Returns (Some e, st')
         \<and> last (effects st') = RecordEvent ''Warning'' ''FailedRescale''
         \<and> (\<forall>n. ScalesUpdate n \<notin> set (effects st')))"
proof -
  let ?st = "exampleState (exampleGPA (Some 0) 5 (Some [''cpu'']))
           [''ns/web'' \<mapsto> [\<lparr>recommendation = 3, timestamp = 100 * Second\<rparr>]]"
  let ?scale = "\<lparr>ScaleSpecReplicas = 3, ScaleStatusReplicas = 3, ScaleStatusSelector = ''app=web''\<rparr>"
  define st1 where "st1 = setCondition (1000 * Second) ''AbleToScale'' ''True'' ''SucceededGetScale''
                           ''the GPA controller was able to get the target's current scale'' ?st"
  have p: "prepare exampleLib ''cron'' (examplePlatform 3 0) (1000 * Second) ''ns/web'' ?st
             = Returns (Inr (?scale, [], st1))"
    by (simp add: prepare_def st1_def examplePlatform_def exampleState_def exampleGPA_def
        scaleForResourceMappings_def recordInitialRecommendation_def cronBounds_def
        setCondition_def Let_def)
  have m: "effectiveMinReplicas st1 = 0"
    by (simp add: effectiveMinReplicas_def st1_def setCondition_def exampleState_def exampleGPA_def)
  have "\<exists>st2. decide (\<lambda>x. 0) exampleOps (examplePlatform 3 0) (300 * Second) (1000 * Second) ''ns/web''
          (GPAStatus (exampleGPA (Some 0) 5 (Some [''cpu''])))
          ?scale [] 0 st1 = Returns (Inr (0, True, [], st2))"
    by (simp add: st1_def setCondition_def
        decide_def isEmpty_def computeByMode_def exampleState_def exampleGPA_def
        examplePlatform_def exampleCompute_def emit_def setConditions_def normalizeDecision_def
        normalizeDesiredReplicas_def stabilizeRecommendation_def window_def Second_def
        convertDesiredReplicasWithRules_def calculateScaleUpLimit_def float64_to_int32_def
        MaxInt32_def MinInt32_def scaleUpLimitFactor_def scaleUpLimitMinimum_def Let_def)
  then obtain st2 where d: "decide (\<lambda>x. 0) exampleOps (examplePlatform 3 0) (300 * Second) (1000 * Second) ''ns/web''
          (GPAStatus (gpa ?st))
          ?scale [] (effectiveMinReplicas st1) st1 = Returns (Inr (0, True, [], st2))"
    by (auto simp: m exampleState_def)
  have ne: "ScaleSpecReplicas ?scale \<noteq> 0" by simp
  have e0: "effects ?st = []" by (simp add: exampleState_def)
  from zero_desired_refused[OF p d ne] obtain e es where
    r: "reconcileAutoscaler (\<lambda>x. 0) exampleOps exampleLib ''cron'' (examplePlatform 3 0)
           (300 * Second) (1000 * Second) ''ns/web'' ?st
          = Returns (Some e, st2\<lparr>effects := effects ?st @ es @ [RecordEvent ''Warning'' ''FailedRescale'']\<rparr>)"
    and es: "\<forall>x \<in> set es. x = GPAPatchLabels \<or> (\<exists>t r. x = RecordEvent t r)"
    by blast
  from es have "\<forall>n. ScalesUpdate n \<notin> set (effects (st2\<lparr>effects := effects ?st @ es @ [RecordEvent ''Warning'' ''FailedRescale'']\<rparr>))"
    by (auto simp: e0)
  moreover have "last (effects (st2\<lparr>effects := effects ?st @ es @ [RecordEvent ''Warning'' ''FailedRescale'']\<rparr>))
      = RecordEvent ''Warning'' ''FailedRescale''"
    by simp
  ultimately have "\<exists>e st'.
         reconcileAutoscaler (\<lambda>x. 0) exampleOps exampleLib ''cron'' (examplePlatform 3 0)
           (300 * Second) (1000 * Second) ''ns/web'' ?st
           = Returns (Some e, st')
         \<and> last (effects st') = RecordEvent ''Warning'' ''FailedRescale''
         \<and> (\<forall>n. ScalesUpdate n \<notin> set (effects st'))"
    using r by blast
  moreover from p d have "\<exists>st1 st2.
      prepare exampleLib ''cron'' (examplePlatform 3 0) (1000 * Second) ''ns/web'' ?st
        = Returns (Inr (?scale, [], st1))
      \<and> decide (\<lambda>x. 0) exampleOps (examplePlatform 3 0) (300 * Second) (1000 * Second) ''ns/web''
          (GPAStatus (exampleGPA (Some 0) 5 (Some [''cpu''])))
          ?scale []
          (effectiveMinReplicas st1) st1 = Returns (Inr (0, True, [], st2))"
    by (auto simp: exampleState_def)
  ultimately show ?thesis by simp
qed

text \<open>
  C10. Let no driving mode be set, let the reconcile get the scale of the target, and
  let none of the three gates fire: the target is not at 0 replicas under a minimum
  other than 0, and its replica count lies within the bounds. Then
  \<open>reconcileAutoscaler\<close> returns nil. It has patched the labels at most: it has not
  written the scale subresource, it has not written the status or a condition, it has
  recorded no event, and it has left the windows of scale events alone.
\<close>

theorem empty_mode_returns_early:
  assumes empty: "isEmpty (Spec (gpa st))"
    and gv: "ParseGroupVersion env (TargetAPIVersion (Spec (gpa st))) = Inr targetGroup"
    and rm: "RESTMappings env (targetGroup, TargetKind (Spec (gpa st))) = Inr mappings"
    and sc: "scaleForResourceMappings env mappings = Inr (scale, targetGR)"
    and g1: "\<not> (ScaleSpecReplicas scale = 0 \<and> effectiveMinReplicas st \<noteq> 0)"
    and g2: "\<not> ScaleSpecReplicas scale > SpecMaxReplicas (Spec (gpa st))"
    and g3: "\<not> ScaleSpecReplicas scale < effectiveMinReplicas st"
  shows "\<exists>st'. reconcileAutoscaler ovf ops lib Cron env w now key st = Returns (None, st')
               \<and> (effects st' = effects st \<or> effects st' = effects st @ [GPAPatchLabels])
               \<and> upEvents st' = upEvents st \<and> downEvents st' = downEvents st"
proof -
  define st0 where "st0 = (if ScaleStatusSelector scale \<noteq> [] \<and> LabelsPatched env
                                  then emit [GPAPatchLabels] st else st)"
  define st1 where "st1 = recordInitialRecommendation now (ScaleSpecReplicas scale) key
                     (setCondition now ''AbleToScale'' ''True'' ''SucceededGetScale''
                                   ''the GPA controller was able to get the target's current scale'' st0)"
  have sp: "Spec (gpa st1) = Spec (gpa st)"
    by (simp add: st1_def st0_def recordInitialRecommendation_def setCondition_def emit_def)
  from empty have cm: "CronMetricMode (Spec (gpa st1)) = None"
    by (simp add: sp isEmpty_def)
  have p: "prepare lib Cron env now key st = Returns (Inr (scale, [], st1))"
    using cm by (simp add: prepare_def gv rm sc Let_def cronBounds_def st1_def st0_def)
  have m: "effectiveMinReplicas st1 = effectiveMinReplicas st"
    by (simp add: effectiveMinReplicas_def sp)
  have a1: "(ScaleSpecReplicas scale = 0 \<and> effectiveMinReplicas st \<noteq> 0) = False"
    and a2: "(ScaleSpecReplicas scale > SpecMaxReplicas (Spec (gpa st))) = False"
    and a3: "(ScaleSpecReplicas scale < effectiveMinReplicas st) = False"
    using g1 g2 g3 by simp_all
  have d: "decide ovf ops env w now key (GPAStatus (gpa st)) scale [] (effectiveMinReplicas st1) st1
             = Returns (Inl (None, st1))"
    using empty by (simp add: decide_def Let_def m sp a1 a2 a3)
  have r: "reconcileAutoscaler ovf ops lib Cron env w now key st = Returns (None, st1)"
    by (simp add: reconcileAutoscaler_def Let_def p d)
  have "effects st1 = effects st \<or> effects st1 = effects st @ [GPAPatchLabels]"
    by (simp add: st1_def st0_def effects_recordInitialRecommendation effects_setCondition effects_emit)
  moreover have "upEvents st1 = upEvents st \<and> downEvents st1 = downEvents st"
    by (simp add: st1_def st0_def recordInitialRecommendation_def setCondition_def emit_def)
  ultimately show ?thesis using r by simp
qed

text \<open>A target of 3 replicas with the bounds 2 and 5 and no mode.\<close>

theorem empty_mode_returns_early_witness:
  "isEmpty (Spec (gpa (exampleState (exampleGPA (Some 2) 5 None) Map.empty)))
   \<and> ParseGroupVersion (examplePlatform 3 4)
        (TargetAPIVersion (Spec (gpa (exampleState (exampleGPA (Some 2) 5 None) Map.empty)))) = Inr ''apps''
   \<and> RESTMappings (examplePlatform 3 4)
        (''apps'', TargetKind (Spec (gpa (exampleState (exampleGPA (Some 2) 5 None) Map.empty))))
        = Inr [''deployments'']
   \<and> scaleForResourceMappings (examplePlatform 3 4) [''deployments'']
        = Inr (\<lparr>ScaleSpecReplicas = 3, ScaleStatusReplicas = 3, ScaleStatusSelector = ''app=web''\<rparr>,
               ''deployments'')
   \<and> effectiveMinReplicas (exampleState (exampleGPA (Some 2) 5 None) Map.empty) = 2
   \<and> SpecMaxReplicas (Spec (gpa (exampleState (exampleGPA (Some 2) 5 None) Map.empty))) = 5
   \<and> (\<exists>st'. reconcileAutoscaler (\<lambda>x. 0) exampleOps exampleLib ''cron'' (examplePlatform 3 4)
               (300 * Second) (1000 * Second) ''ns/web''
               (exampleState (exampleGPA (Some 2) 5 None) Map.empty) = Returns (None, st')
             \<and> effects st' = [])"
proof -
  let ?st = "exampleState (exampleGPA (Some 2) 5 None) Map.empty"
  let ?scale = "\<lparr>ScaleSpecReplicas = 3, ScaleStatusReplicas = 3, ScaleStatusSelector = ''app=web''\<rparr>"
  have empty: "isEmpty (Spec (gpa ?st))"
    by (simp add: isEmpty_def exampleState_def exampleGPA_def)
  have gv: "ParseGroupVersion (examplePlatform 3 4) (TargetAPIVersion (Spec (gpa ?st))) = Inr ''apps''"
    by (simp add: examplePlatform_def)
  have rm: "RESTMappings (examplePlatform 3 4) (''apps'', TargetKind (Spec (gpa ?st))) = Inr [''deployments'']"
    by (simp add: examplePlatform_def)
  have sc: "scaleForResourceMappings (examplePlatform 3 4) [''deployments''] = Inr (?scale, ''deployments'')"
    by (simp add: scaleForResourceMappings_def examplePlatform_def)
  have mn: "effectiveMinReplicas ?st = 2"
    by (simp add: effectiveMinReplicas_def exampleState_def exampleGPA_def)
  have mx: "SpecMaxReplicas (Spec (gpa ?st)) = 5"
    by (simp add: exampleState_def exampleGPA_def)
  have g1: "\<not> (ScaleSpecReplicas ?scale = 0 \<and> effectiveMinReplicas ?st \<noteq> 0)" by simp
  have g2: "\<not> ScaleSpecReplicas ?scale > SpecMaxReplicas (Spec (gpa ?st))" by (simp add: mx)
  have g3: "\<not> ScaleSpecReplicas ?scale < effectiveMinReplicas ?st" by (simp add: mn)
  have e0: "effects ?st = []" by (simp add: exampleState_def)
  from empty_mode_returns_early[OF empty gv rm sc g1 g2 g3, of "\<lambda>x. 0" exampleOps exampleLib "''cron''"
      "300 * Second" "1000 * Second" "''ns/web''"]
  obtain st' where r: "reconcileAutoscaler (\<lambda>x. 0) exampleOps exampleLib ''cron'' (examplePlatform 3 4)
               (300 * Second) (1000 * Second) ''ns/web'' ?st = Returns (None, st')"
    and e: "effects st' = effects ?st \<or> effects st' = effects ?st @ [GPAPatchLabels]"
    by blast
  have "reconcileAutoscaler (\<lambda>x. 0) exampleOps exampleLib ''cron'' (examplePlatform 3 4)
               (300 * Second) (1000 * Second) ''ns/web'' ?st
        = Returns (None, recordInitialRecommendation (1000 * Second) 3 ''ns/web''
                     (setCondition (1000 * Second) ''AbleToScale'' ''True'' ''SucceededGetScale''
                                   ''the GPA controller was able to get the target's current scale'' ?st))"
    by (simp add: reconcileAutoscaler_def prepare_def decide_def examplePlatform_def
        scaleForResourceMappings_def Let_def cronBounds_def
        effectiveMinReplicas_def isEmpty_def recordInitialRecommendation_def setCondition_def
        exampleState_def exampleGPA_def)
  with r have "effects st' = []"
    by (auto simp: effects_recordInitialRecommendation effects_setCondition e0)
  with r empty gv rm sc mn mx show ?thesis by simp
qed

end
